theory Spec2Isabelle
  imports Main "HOL-Library.Char_ord" "HOL-Library.List_Lexorder"
begin

section \<open>Python strings\<close>

text \<open>
  A Python \<open>str\<close> is modelled as a \<open>string\<close>: every \<open>char\<close> stands for the code
  point of the same number, so the model covers text in the range U+0000..U+00FF.
  \<open>is_space\<close> lists the code points of that range for which \<open>str.isspace\<close> holds; they
  are the ones \<open>str.strip()\<close> removes.
\<close>

definition is_space :: "char \<Rightarrow> bool" where
  "is_space c = (c \<in> set [CHR 0x09, CHR 0x0A, CHR 0x0B, CHR 0x0C, CHR 0x0D,
                          CHR 0x1C, CHR 0x1D, CHR 0x1E, CHR 0x1F, CHR 0x20,
                          CHR 0x85, CHR 0xA0])"

definition strip :: "string \<Rightarrow> string" where
  "strip s = rev (dropWhile is_space (rev (dropWhile is_space s)))"

text \<open>\<open>sep.join(xs)\<close>.\<close>

fun join :: "string \<Rightarrow> string list \<Rightarrow> string" where
  "join sep [] = []"
| "join sep [x] = x"
| "join sep (x # y # ys) = x @ sep @ join sep (y # ys)"

text \<open>\<open>s.startswith(p)\<close>.\<close>

definition startswith :: "string \<Rightarrow> string \<Rightarrow> bool" where
  "startswith s p = (take (length p) s = p)"

text \<open>
  \<open>s.replace(old, new)\<close>: every occurrence of \<open>old\<close>, found from the left and not
  overlapping, becomes \<open>new\<close>; an empty \<open>old\<close> matches before every character and at
  the end.
\<close>

function replace :: "string \<Rightarrow> string \<Rightarrow> string \<Rightarrow> string" where
  "replace old new s =
     (if old = [] then new @ concat (map (\<lambda>c. c # new) s)
      else if s = [] then []
      else if startswith s old then new @ replace old new (drop (length old) s)
      else hd s # replace old new (tl s))"
  by pat_completeness auto
termination
  by (relation "measure (\<lambda>(old, new, s). length s)") auto

declare replace.simps [simp del]

text \<open>
  \<open>s.splitlines()\<close>: the line boundaries of the modelled range are LF, VT, FF, CR,
  FS, GS, RS, NEL, and CR LF counts as one boundary. The first argument holds the
  characters of the current line, latest first.
\<close>

definition is_linebreak :: "char \<Rightarrow> bool" where
  "is_linebreak c = (c \<in> set [CHR 0x0A, CHR 0x0B, CHR 0x0C, CHR 0x0D,
                              CHR 0x1C, CHR 0x1D, CHR 0x1E, CHR 0x85])"

fun splitlines_from :: "string \<Rightarrow> string \<Rightarrow> string list" where
  "splitlines_from acc [] = (if acc = [] then [] else [rev acc])"
| "splitlines_from acc [c] =
     (if is_linebreak c then [rev acc] else [rev (c # acc)])"
| "splitlines_from acc (c # d # cs) =
     (if c = CHR 0x0D \<and> d = CHR 0x0A then rev acc # splitlines_from [] cs
      else if is_linebreak c then rev acc # splitlines_from [] (d # cs)
      else splitlines_from (c # acc) (d # cs))"

definition splitlines :: "string \<Rightarrow> string list" where
  "splitlines s = splitlines_from [] s"

text \<open>\<open>str(n)\<close> for a natural number; \<open>digit_char\<close> is used for digits below ten only.\<close>

definition digit_char :: "nat \<Rightarrow> char" where
  "digit_char d = ''0123456789'' ! d"

fun str_nat :: "nat \<Rightarrow> string" where
  "str_nat n = (if n < 10 then [digit_char n] else str_nat (n div 10) @ [digit_char (n mod 10)])"

declare str_nat.simps [simp del]

section \<open>The parsed document\<close>

text \<open>
  An \<open>xml.etree.ElementTree.Element\<close>: its tag, its attributes in document order, its
  \<open>text\<close> (\<open>None\<close> when there is none before the first child) and its children.
\<close>

datatype elem = Element (tag: string) (attrib: "(string \<times> string) list")
  (elem_text: "string option") (children: "elem list")

text \<open>
  Two elements of one document are the same object when they sit at the same place, so
  the traversal pairs every element with its position: the child indices on the way
  from the root. \<open>iter_at p e\<close> is \<open>e.iter()\<close>, the element and all its descendants in
  document order.
\<close>

fun iter_at :: "nat list \<Rightarrow> elem \<Rightarrow> (nat list \<times> elem) list"
  and iter_children :: "nat list \<Rightarrow> nat \<Rightarrow> elem list \<Rightarrow> (nat list \<times> elem) list" where
  "iter_at p (Element t a x cs) = (p, Element t a x cs) # iter_children p 0 cs"
| "iter_children p i [] = []"
| "iter_children p i (c # cs) = iter_at (p @ [i]) c @ iter_children p (Suc i) cs"

text \<open>
  \<open>e.findall(".//t")\<close>: the elements with tag \<open>t\<close> on all levels beneath \<open>e\<close>, in
  document order; \<open>e\<close> itself is not among them.
\<close>

definition findall_at :: "string \<Rightarrow> nat list \<times> elem \<Rightarrow> (nat list \<times> elem) list" where
  "findall_at t pe = filter (\<lambda>(q, x). tag x = t) (iter_children (fst pe) 0 (children (snd pe)))"

definition findall :: "string \<Rightarrow> elem \<Rightarrow> elem list" where
  "findall t e = map snd (findall_at t ([], e))"

text \<open>\<open>e.find(".//t")\<close>: the first of them, or \<open>None\<close>.\<close>

definition find_desc :: "string \<Rightarrow> elem \<Rightarrow> elem option" where
  "find_desc t e = (case findall t e of [] \<Rightarrow> None | x # _ \<Rightarrow> Some x)"

text \<open>\<open>e.get(k)\<close> and \<open>e.get(k, default)\<close>.\<close>

definition get :: "elem \<Rightarrow> string \<Rightarrow> string option" where
  "get e k = map_of (attrib e) k"

definition get_or :: "elem \<Rightarrow> string \<Rightarrow> string \<Rightarrow> string" where
  "get_or e k dflt = (case get e k of None \<Rightarrow> dflt | Some v \<Rightarrow> v)"

text \<open>
  \<open>e.findtext(t, default)\<close> for a plain tag \<open>t\<close>: the text of the first child with that
  tag, the empty string when that child has no text, \<open>default\<close> when there is no such
  child.
\<close>

definition findtext :: "elem \<Rightarrow> string \<Rightarrow> string \<Rightarrow> string" where
  "findtext e t dflt =
     (case filter (\<lambda>c. tag c = t) (children e) of
        [] \<Rightarrow> dflt
      | c # _ \<Rightarrow> (case elem_text c of None \<Rightarrow> [] | Some s \<Rightarrow> s))"

section \<open>Item details\<close>

text \<open>
  \<open>get_item_details\<close> of \<open>export_xml_to_excel_v6.py\<close> and \<open>export_xml_to_word_v4.py\<close> (the
  two are the same text). \<open>item_tags\<close> is the loop that fills the dictionary \<open>tags\<close>.
\<close>

fun tags_loop :: "(string \<rightharpoonup> string) \<Rightarrow> elem list \<Rightarrow> (string \<rightharpoonup> string)" where
  "tags_loop tags [] = tags"
| "tags_loop tags (st # sts) =
     (let name = strip (findtext st ''name'' []);
          val = strip (findtext st ''value'' [])
      in tags_loop (if name \<noteq> [] then tags(name \<mapsto> val) else tags) sts)"

definition item_tags :: "elem \<Rightarrow> (string \<rightharpoonup> string)" where
  "item_tags clash_object = tags_loop Map.empty (findall ''smarttag'' clash_object)"

text \<open>\<open>tags.get(k)\<close> used as a condition, and \<open>tags.get(k, "")\<close>.\<close>

definition tag_truthy :: "(string \<rightharpoonup> string) \<Rightarrow> string \<Rightarrow> bool" where
  "tag_truthy tags k = (case tags k of None \<Rightarrow> False | Some v \<Rightarrow> v \<noteq> [])"

definition tag_or_empty :: "(string \<rightharpoonup> string) \<Rightarrow> string \<Rightarrow> string" where
  "tag_or_empty tags k = (case tags k of None \<Rightarrow> [] | Some v \<Rightarrow> v)"

definition item_lines :: "(string \<rightharpoonup> string) \<Rightarrow> string list" where
  "item_lines tags =
     (let part = tag_or_empty tags ''Civil3D General:Part Size Name'';
          itype = tag_or_empty tags ''Item Type'';
          type_line = strip (join '' '' (filter (\<lambda>s. s \<noteq> []) [part, itype]));
          inner = tag_or_empty tags ''Civil3D General:Inner Diameter or Width'';
          outer = tag_or_empty tags ''Civil3D General:Outer Diameter or Width''
      in (if tag_truthy tags ''Item Name''
          then [''Item Name: '' @ tag_or_empty tags ''Item Name''] else [])
       @ (if tag_truthy tags ''Civil3D General:Network name''
          then [''Network: '' @ tag_or_empty tags ''Civil3D General:Network name''] else [])
       @ (if type_line \<noteq> [] then [''Item Type: '' @ type_line] else [])
       @ (if inner \<noteq> [] \<or> outer \<noteq> []
          then [strip (''Pipe '' @ inner @ '' x '' @ outer)] else []))"

definition get_item_details :: "elem option \<Rightarrow> string" where
  "get_item_details clash_object =
     (case clash_object of
        None \<Rightarrow> []
      | Some obj \<Rightarrow> join [CHR 0x0A] (item_lines (item_tags obj)))"

text \<open>\<open>get_item_name_short\<close>, the same text in both files.\<close>

fun first_item_name :: "string list \<Rightarrow> string option" where
  "first_item_name [] = None"
| "first_item_name (line # lines) =
     (if startswith line ''Item Name:'' then Some (strip (replace ''Item Name:'' [] line))
      else first_item_name lines)"

definition get_item_name_short :: "string \<Rightarrow> string" where
  "get_item_name_short item_details_text =
     (case first_item_name (splitlines item_details_text) of
        Some n \<Rightarrow> n
      | None \<Rightarrow>
          (let first = (if item_details_text \<noteq> []
                        then (case splitlines item_details_text of l # _ \<Rightarrow> l | [] \<Rightarrow> [])
                        else [])
           in if first \<noteq> [] then first else ''Unknown''))"

section \<open>Field discovery\<close>

text \<open>
  \<open>discover_fields\<close> of \<open>discover_xml_fields.py\<close>. The inner function \<open>walk\<close> adds to the
  two sets \<open>elements\<close> and \<open>attributes\<close> of the enclosing call; here it takes the pair
  and returns it updated. \<open>scan_fields\<close> is the function from the root on: the walk and
  the two sorted lists.
\<close>

definition text_truthy :: "string option \<Rightarrow> bool" where
  "text_truthy x = (case x of None \<Rightarrow> False | Some s \<Rightarrow> s \<noteq> [] \<and> strip s \<noteq> [])"

definition tag_path_of :: "string \<Rightarrow> string \<Rightarrow> string" where
  "tag_path_of path t = (if path \<noteq> [] then path @ ''/'' @ t else t)"

fun walk :: "elem \<Rightarrow> string \<Rightarrow> string set \<times> string set \<Rightarrow> string set \<times> string set"
  and walk_children :: "elem list \<Rightarrow> string \<Rightarrow> string set \<times> string set \<Rightarrow> string set \<times> string set" where
  "walk (Element t a x cs) path (elements, attributes) =
     (let tag_path = tag_path_of path t;
          attributes' = fold (\<lambda>attr s. insert (tag_path @ ''/@'' @ attr) s) (map fst a) attributes;
          elements' = (if text_truthy x \<or> cs \<noteq> [] then insert tag_path elements else elements)
      in walk_children cs tag_path (elements', attributes'))"
| "walk_children [] path st = st"
| "walk_children (c # cs) path st = walk_children cs path (walk c path st)"

definition scan_fields :: "elem \<Rightarrow> string list \<times> string list" where
  "scan_fields root =
     (case walk root [] ({}, {}) of
        (elements, attributes) \<Rightarrow> (sorted_list_of_set elements, sorted_list_of_set attributes))"

text \<open>
  What the scan is meant to list. \<open>tag_paths\<close> gives every element of the document with
  its tag path, the tag names from the root down joined by \<open>/\<close>; an element path is
  listed for an element with text or children, an attribute path for every attribute.
\<close>

fun tag_paths :: "string \<Rightarrow> elem \<Rightarrow> (string \<times> elem) list"
  and tag_paths_children :: "string \<Rightarrow> elem list \<Rightarrow> (string \<times> elem) list" where
  "tag_paths path (Element t a x cs) =
     (tag_path_of path t, Element t a x cs) # tag_paths_children (tag_path_of path t) cs"
| "tag_paths_children path [] = []"
| "tag_paths_children path (c # cs) = tag_paths path c @ tag_paths_children path cs"

definition element_paths :: "(string \<times> elem) list \<Rightarrow> string list" where
  "element_paths nodes =
     map fst (filter (\<lambda>(tp, e). text_truthy (elem_text e) \<or> children e \<noteq> []) nodes)"

definition attribute_paths :: "(string \<times> elem) list \<Rightarrow> string list" where
  "attribute_paths nodes =
     concat (map (\<lambda>(tp, e). map (\<lambda>k. tp @ ''/@'' @ k) (map fst (attrib e))) nodes)"

definition listed_elements :: "elem \<Rightarrow> string set" where
  "listed_elements root = set (element_paths (tag_paths [] root))"

definition listed_attributes :: "elem \<Rightarrow> string set" where
  "listed_attributes root = set (attribute_paths (tag_paths [] root))"

section \<open>Paths and the file system\<close>

text \<open>
  A \<open>pathlib\<close> path of the POSIX flavour: the root (empty for a relative path, \<open>/\<close>, or
  \<open>//\<close> when the text starts with exactly two slashes) and the parts after it. \<open>Path s\<close>
  drops empty parts and \<open>.\<close> parts, as \<open>pathlib\<close> does.
\<close>

datatype path = Path_of (path_root: string) (path_parts: "string list")

fun split_slash :: "string \<Rightarrow> string \<Rightarrow> string list" where
  "split_slash acc [] = [rev acc]"
| "split_slash acc (c # cs) =
     (if c = CHR ''/'' then rev acc # split_slash [] cs else split_slash (c # acc) cs)"

definition posix_root :: "string \<Rightarrow> string" where
  "posix_root s =
     (if take 1 s \<noteq> ''/'' then []
      else if take 2 s = ''//'' \<and> take 3 s \<noteq> ''///'' then ''//''
      else ''/'')"

definition Path :: "string \<Rightarrow> path" where
  "Path s = Path_of (posix_root s) (filter (\<lambda>p. p \<noteq> [] \<and> p \<noteq> ''.'') (split_slash [] s))"

definition is_absolute :: "path \<Rightarrow> bool" where
  "is_absolute p = (path_root p \<noteq> [])"

definition parent :: "path \<Rightarrow> path" where
  "parent p = Path_of (path_root p) (butlast (path_parts p))"

definition name :: "path \<Rightarrow> string" where
  "name p = (if path_parts p = [] then [] else last (path_parts p))"

text \<open>\<open>p / s\<close>: an absolute \<open>s\<close> replaces \<open>p\<close>.\<close>

definition joinpath :: "path \<Rightarrow> string \<Rightarrow> path" where
  "joinpath p s =
     (let q = Path s
      in if is_absolute q then q else Path_of (path_root p) (path_parts p @ path_parts q))"

text \<open>
  What the program asks of its environment: whether a path exists, what \<open>resolve()\<close>
  makes of a path (\<open>None\<close> when it raises), and what \<open>ET.parse\<close> reads from a file
  (\<open>None\<close> when the file is not well-formed XML and \<open>ParseError\<close> is raised). The test
  for existence is taken to answer: an error of the operating system during the test is
  outside the model. For the image library: \<open>image_open\<close> is \<open>PILImage.open\<close> followed by
  \<open>img.size\<close>, the width and height, \<open>None\<close> when the file cannot be opened;
  \<open>image_resize_save\<close> is \<open>img.resize\<close> to the given size, the making of a temporary file
  with the given suffix and \<open>img.save\<close> to it, \<open>None\<close> when one of them raises; \<open>xl_image\<close>
  tells whether \<open>XLImage\<close> and \<open>ws.add_image\<close> accept the file, \<open>add_picture\<close> whether
  \<open>run.add_picture\<close> does.
\<close>

record world =
  path_exists :: "path \<Rightarrow> bool"
  path_resolve :: "path \<Rightarrow> path option"
  parse_xml :: "path \<Rightarrow> elem option"
  image_open :: "path \<Rightarrow> (nat \<times> nat) option"
  image_resize_save :: "path \<Rightarrow> nat \<times> nat \<Rightarrow> string \<Rightarrow> path option"
  xl_image :: "path \<Rightarrow> bool"
  add_picture :: "path \<Rightarrow> bool"

text \<open>
  \<open>ImageError\<close> stands for whatever the image library raises from \<open>img.resize\<close>,
  \<open>img.save\<close> or \<open>run.add_picture\<close>.
\<close>

datatype error = FileNotFoundError | ParseError | ValueError | ZeroDivisionError | ImageError

text \<open>
  \<open>discover_fields\<close> opens and parses the file itself: \<open>ET.parse\<close> raises
  \<open>FileNotFoundError\<close> for a file that does not exist.
\<close>

definition discover_fields :: "world \<Rightarrow> path \<Rightarrow> error + string list \<times> string list" where
  "discover_fields w xml_path =
     (if \<not> path_exists w xml_path then Inl FileNotFoundError
      else (case parse_xml w xml_path of
              None \<Rightarrow> Inl ParseError
            | Some root \<Rightarrow> Inr (scan_fields root)))"

section \<open>Locating the image\<close>

text \<open>
  \<open>find_image_file\<close>, the same text in \<open>export_xml_to_excel_v6.py\<close> and
  \<open>export_xml_to_word_v4.py\<close>. The result comes with the candidates the loop has
  resolved and tested, in the order of the tests.
\<close>

definition candidates :: "string \<Rightarrow> path \<Rightarrow> path list" where
  "candidates href xml_path =
     (let p = Path href;
          xml_dir = parent xml_path;
          fname = name (Path href)
      in (if is_absolute p then [p] else [])
         @ [joinpath xml_dir href,
            joinpath xml_dir fname,
            joinpath (joinpath xml_dir ''ELV_files'') fname])"

definition resolved :: "world \<Rightarrow> path \<Rightarrow> path" where
  "resolved w cand = (case path_resolve w cand of None \<Rightarrow> cand | Some r \<Rightarrow> r)"

fun first_existing :: "world \<Rightarrow> path list \<Rightarrow> path option \<times> path list" where
  "first_existing w [] = (None, [])"
| "first_existing w (cand # cands) =
     (let cand_resolved = resolved w cand
      in if path_exists w cand_resolved then (Some cand_resolved, [cand])
         else (case first_existing w cands of (found, tested) \<Rightarrow> (found, cand # tested)))"

definition find_image_file :: "world \<Rightarrow> string \<Rightarrow> path \<Rightarrow> path option \<times> path list" where
  "find_image_file w href_raw xml_path =
     (if href_raw = [] then (None, [])
      else let href = strip (replace [CHR 0x5C] ''/'' href_raw)
           in first_existing w (candidates href xml_path))"

section \<open>Floating-point numbers\<close>

text \<open>
  A Python \<open>float\<close> is an IEEE 754 binary64 number. \<open>Finite neg m e\<close> is the number
  \<open>m * 2 ^ e\<close> with the sign \<open>neg\<close>, where \<open>m < 2 ^ 53\<close> and \<open>- 1074 \<le> e \<le> 971\<close>, and
  \<open>2 ^ 52 \<le> m\<close> unless \<open>e = - 1074\<close>; zero is \<open>Finite neg 0 (- 1074)\<close>. All roundings are
  to the nearest value, ties to even, computed on integers.
\<close>

datatype pyfloat = Finite bool nat int | Infinity bool | NaN

definition float_zero :: pyfloat where
  "float_zero = Finite False 0 (- 1074)"

text \<open>The integer nearest to \<open>n / d\<close>, and to \<open>(n / d) / 2 ^ e\<close>.\<close>

definition round_half_even :: "nat \<Rightarrow> nat \<Rightarrow> nat" where
  "round_half_even n d =
     (let q = n div d; r = n mod d
      in if 2 * r < d then q else if d < 2 * r then Suc q else if even q then q else Suc q)"

definition scaled_round :: "nat \<Rightarrow> nat \<Rightarrow> int \<Rightarrow> nat" where
  "scaled_round n d e =
     (if 0 \<le> e then round_half_even n (d * 2 ^ nat e)
      else round_half_even (n * 2 ^ nat (- e)) d)"

fun bit_length :: "nat \<Rightarrow> nat" where
  "bit_length n = (if n = 0 then 0 else Suc (bit_length (n div 2)))"

declare bit_length.simps [simp del]

text \<open>The integer part of the binary logarithm of \<open>n / d\<close>, for positive \<open>n\<close> and \<open>d\<close>.\<close>

definition floor_log2 :: "nat \<Rightarrow> nat \<Rightarrow> int" where
  "floor_log2 n d =
     (let k = int (bit_length n) - int (bit_length d)
      in if (if 0 \<le> k then d * 2 ^ nat k \<le> n else d \<le> n * 2 ^ nat (- k)) then k else k - 1)"

text \<open>The binary64 number nearest to \<open>n / d\<close>, with the sign \<open>neg\<close>.\<close>

definition to_binary64 :: "bool \<Rightarrow> nat \<Rightarrow> nat \<Rightarrow> pyfloat" where
  "to_binary64 neg n d =
     (if n = 0 then Finite neg 0 (- 1074)
      else let e = max (floor_log2 n d - 52) (- 1074);
               m = scaled_round n d e;
               m' = (if m = 2 ^ 53 then 2 ^ 52 else m);
               e' = (if m = 2 ^ 53 then e + 1 else e)
           in if 971 < e' then Infinity neg else Finite neg m' e')"

text \<open>
  \<open>float(s)\<close> for a string: \<open>None\<close> stands for \<open>ValueError\<close>. The text may have white
  space around it, a sign, and then \<open>inf\<close>, \<open>infinity\<close> or \<open>nan\<close> in any case, or a
  decimal number with an optional exponent; a single underscore may sit between two
  digits.
\<close>

definition is_digit :: "char \<Rightarrow> bool" where
  "is_digit c = (CHR ''0'' \<le> c \<and> c \<le> CHR ''9'')"

definition digit_val :: "char \<Rightarrow> nat" where
  "digit_val c = of_char c - of_char (CHR ''0'')"

definition nat_of_digits :: "string \<Rightarrow> nat" where
  "nat_of_digits ds = foldl (\<lambda>n c. 10 * n + digit_val c) 0 ds"

fun digits_more :: "string \<Rightarrow> string \<Rightarrow> string \<times> string" where
  "digits_more acc [] = (rev acc, [])"
| "digits_more acc [c] = (if is_digit c then (rev (c # acc), []) else (rev acc, [c]))"
| "digits_more acc (c # d # cs) =
     (if is_digit c then digits_more (c # acc) (d # cs)
      else if c = CHR ''_'' \<and> is_digit d then digits_more (d # acc) cs
      else (rev acc, c # d # cs))"

definition digitpart :: "string \<Rightarrow> string \<times> string" where
  "digitpart s =
     (case s of
        [] \<Rightarrow> ([], [])
      | c # cs \<Rightarrow> if is_digit c then digits_more [c] cs else ([], s))"

definition parse_exponent :: "string \<Rightarrow> int option" where
  "parse_exponent r =
     (if r = [] then Some 0
      else if take 1 r = ''e'' \<or> take 1 r = ''E'' then
        (let r1 = drop 1 r;
             r2 = (if take 1 r1 = ''-'' \<or> take 1 r1 = ''+'' then drop 1 r1 else r1)
         in case digitpart r2 of
              (ed, rest) \<Rightarrow>
                if ed = [] \<or> rest \<noteq> [] then None
                else Some (if take 1 r1 = ''-'' then - int (nat_of_digits ed)
                           else int (nat_of_digits ed)))
      else None)"

definition decimal_to_float :: "bool \<Rightarrow> nat \<Rightarrow> int \<Rightarrow> pyfloat" where
  "decimal_to_float neg m ex =
     (if 0 \<le> ex then to_binary64 neg (m * 10 ^ nat ex) 1
      else to_binary64 neg m (10 ^ nat (- ex)))"

definition parse_number :: "bool \<Rightarrow> string \<Rightarrow> pyfloat option" where
  "parse_number neg s =
     (case digitpart s of
        (ip, r1) \<Rightarrow>
          (case (if take 1 r1 = ''.'' then digitpart (drop 1 r1) else ([], r1)) of
             (fp, r2) \<Rightarrow>
               if ip = [] \<and> fp = [] then None
               else (case parse_exponent r2 of
                       None \<Rightarrow> None
                     | Some ex \<Rightarrow>
                         Some (decimal_to_float neg (nat_of_digits (ip @ fp))
                                 (ex - int (length fp))))))"

definition float_space :: "char \<Rightarrow> bool" where
  "float_space c = (c \<in> set [CHR 0x09, CHR 0x0A, CHR 0x0B, CHR 0x0C, CHR 0x0D, CHR 0x20])"

definition to_lower :: "char \<Rightarrow> char" where
  "to_lower c =
     (case map_of (zip ''ABCDEFGHIJKLMNOPQRSTUVWXYZ'' ''abcdefghijklmnopqrstuvwxyz'') c of
        None \<Rightarrow> c
      | Some l \<Rightarrow> l)"

definition float_of_str :: "string \<Rightarrow> pyfloat option" where
  "float_of_str s =
     (let s1 = map (\<lambda>c. if c = CHR 0x85 \<or> c = CHR 0xA0 then CHR 0x20 else c) s;
          s2 = rev (dropWhile float_space (rev (dropWhile float_space s1)));
          neg = (take 1 s2 = ''-'');
          s3 = (if take 1 s2 = ''-'' \<or> take 1 s2 = ''+'' then drop 1 s2 else s2);
          low = map to_lower s3
      in if low = ''inf'' \<or> low = ''infinity'' then Some (Infinity neg)
         else if low = ''nan'' then Some NaN
         else parse_number neg s3)"

text \<open>The format \<open>{v:.3f}\<close>, and \<open>round(v, 3)\<close>.\<close>

definition pad3 :: "nat \<Rightarrow> string" where
  "pad3 n = [digit_char (n div 100 mod 10), digit_char (n div 10 mod 10), digit_char (n mod 10)]"

definition format_3f :: "pyfloat \<Rightarrow> string" where
  "format_3f v =
     (case v of
        NaN \<Rightarrow> ''nan''
      | Infinity neg \<Rightarrow> (if neg then ''-inf'' else ''inf'')
      | Finite neg m e \<Rightarrow>
          (let q = scaled_round (m * 1000) 1 (- e)
           in (if neg then ''-'' else []) @ str_nat (q div 1000) @ ''.'' @ pad3 (q mod 1000)))"

definition round3 :: "pyfloat \<Rightarrow> pyfloat" where
  "round3 v =
     (case v of
        Finite neg m e \<Rightarrow> to_binary64 neg (scaled_round (m * 1000) 1 (- e)) 1000
      | _ \<Rightarrow> v)"

section \<open>Resizing the image\<close>

text \<open>
  \<open>str(p)\<close> and \<open>p.suffix\<close> of a path: the suffix is the part of the name from its last
  dot on, when that dot is neither the first nor the last character of the name.
\<close>

definition str_path :: "path \<Rightarrow> string" where
  "str_path p =
     (if path_parts p = [] then (if path_root p = [] then ''.'' else path_root p)
      else path_root p @ join ''/'' (path_parts p))"

definition suffix :: "path \<Rightarrow> string" where
  "suffix p =
     (let nm = name p;
          ext = rev (takeWhile (\<lambda>c. c \<noteq> CHR ''.'') (rev nm))
      in if CHR ''.'' \<notin> set nm \<or> ext = [] \<or> length nm \<le> Suc (length ext) then []
         else ''.'' @ ext)"

text \<open>
  \<open>ratio = min(max_w / w, max_h / h, 1.0)\<close> and \<open>int(w * ratio), int(h * ratio)\<close>, on
  binary64 numbers that are finite and not negative: the quotient of two integers and
  the product are rounded to the nearest number, \<open>min\<close> keeps the first of the least
  arguments, \<open>int\<close> cuts the fraction off. The width and height of an image are below
  \<open>2 ^ 53\<close>, so their conversion to binary64 in the product is exact.
\<close>

definition float_one :: pyfloat where
  "float_one = Finite False (2 ^ 52) (- 52)"

definition float_less :: "pyfloat \<Rightarrow> pyfloat \<Rightarrow> bool" where
  "float_less a b =
     (case (a, b) of
        (Finite na m1 e1, Finite nb m2 e2) \<Rightarrow>
          m1 * 2 ^ nat (e1 - min e1 e2) < m2 * 2 ^ nat (e2 - min e1 e2)
      | _ \<Rightarrow> False)"

definition float_min3 :: "pyfloat \<Rightarrow> pyfloat \<Rightarrow> pyfloat \<Rightarrow> pyfloat" where
  "float_min3 a b c =
     (let r = (if float_less b a then b else a)
      in if float_less c r then c else r)"

definition scale_int :: "nat \<Rightarrow> pyfloat \<Rightarrow> nat" where
  "scale_int n ratio =
     (case ratio of
        Finite neg m e \<Rightarrow>
          (case (if 0 \<le> e then to_binary64 False (n * m * 2 ^ nat e) 1
                 else to_binary64 False (n * m) (2 ^ nat (- e))) of
             Finite neg' m' e' \<Rightarrow> (if 0 \<le> e' then m' * 2 ^ nat e' else m' div 2 ^ nat (- e'))
           | _ \<Rightarrow> 0)
      | _ \<Rightarrow> 0)"

definition scaled_size :: "nat \<Rightarrow> nat \<Rightarrow> nat \<Rightarrow> nat \<Rightarrow> nat \<times> nat" where
  "scaled_size max_w max_h w h =
     (let ratio = float_min3 (to_binary64 False max_w w) (to_binary64 False max_h h) float_one
      in (scale_int w ratio, scale_int h ratio))"

text \<open>
  \<open>resize_image_for_cell\<close> of \<open>export_xml_to_excel_v6.py\<close> (lines 70 to 88). Only the
  opening of the image is inside a \<open>try\<close>; the result \<open>Inr None\<close> is the \<open>return None\<close>
  after it. A width or height of zero makes the division raise.
\<close>

definition resize_image_for_cell ::
  "world \<Rightarrow> path \<Rightarrow> nat \<Rightarrow> nat \<Rightarrow> nat \<Rightarrow> error + path option" where
  "resize_image_for_cell w orig_path target_width_px target_height_px padding_px =
     (case image_open w orig_path of
        None \<Rightarrow> Inr None
      | Some (wd, ht) \<Rightarrow>
          (let max_w = max 1 (target_width_px - padding_px);
               max_h = max 1 (target_height_px - padding_px)
           in if wd = 0 \<or> ht = 0 then Inl ZeroDivisionError
              else (case image_resize_save w orig_path (scaled_size max_w max_h wd ht)
                           (if suffix orig_path \<noteq> [] then suffix orig_path else ''.png'') of
                      None \<Rightarrow> Inl ImageError
                    | Some tmp_path \<Rightarrow> Inr (Some tmp_path))))"

text \<open>
  \<open>resize_image_for_cell\<close> of \<open>export_xml_to_word_v4.py\<close> (lines 58 to 75), called with
  7.5 cm for both bounds: \<open>int(7.5 * 96 / 2.54)\<close> is 283. The temporary file always
  has the suffix \<open>.png\<close>.
\<close>

definition IMG_MAX_PX :: nat where
  "IMG_MAX_PX = 283"

definition resize_image_for_cell_word :: "world \<Rightarrow> path \<Rightarrow> error + path option" where
  "resize_image_for_cell_word w orig_path =
     (case image_open w orig_path of
        None \<Rightarrow> Inr None
      | Some (wd, ht) \<Rightarrow>
          if wd = 0 \<or> ht = 0 then Inl ZeroDivisionError
          else (case image_resize_save w orig_path (scaled_size IMG_MAX_PX IMG_MAX_PX wd ht)
                       ''.png'' of
                  None \<Rightarrow> Inl ImageError
                | Some tmp_path \<Rightarrow> Inr (Some tmp_path)))"

section \<open>Coordinates\<close>

text \<open>\<open>float(pos.get(k) or 0.0)\<close>, and \<open>float(pos.get(k) or 0)\<close> of the Word export.\<close>

definition axis_value :: "elem \<Rightarrow> string \<Rightarrow> error + pyfloat" where
  "axis_value pos k =
     (case get pos k of
        None \<Rightarrow> Inr float_zero
      | Some s \<Rightarrow>
          if s = [] then Inr float_zero
          else (case float_of_str s of None \<Rightarrow> Inl ValueError | Some v \<Rightarrow> Inr v))"

text \<open>
  The three conversions in the order of the source: the first that raises ends the
  block.
\<close>

definition axis_values :: "elem \<Rightarrow> error + pyfloat \<times> pyfloat \<times> pyfloat" where
  "axis_values pos =
     (case axis_value pos ''x'' of
        Inl err \<Rightarrow> Inl err
      | Inr x_val \<Rightarrow>
          (case axis_value pos ''y'' of
             Inl err \<Rightarrow> Inl err
           | Inr y_val \<Rightarrow>
               (case axis_value pos ''z'' of
                  Inl err \<Rightarrow> Inl err
                | Inr z_val \<Rightarrow> Inr (x_val, y_val, z_val))))"

text \<open>
  \<open>coords_text\<close> in the first loop of \<open>export_to_excel\<close> (lines 172 to 182): the
  \<open>try\<close> block turns any exception into the empty text.
\<close>

definition coords_text_excel :: "elem \<Rightarrow> string" where
  "coords_text_excel clash =
     (case find_desc ''pos3f'' clash of
        None \<Rightarrow> []
      | Some pos \<Rightarrow>
          (case axis_values pos of
             Inl err \<Rightarrow> []
           | Inr (x_val, y_val, z_val) \<Rightarrow>
               format_3f x_val @ ''m,'' @ [CHR 0x0A] @ format_3f y_val @ ''m,'' @ [CHR 0x0A]
               @ format_3f z_val @ ''m''))"

text \<open>\<open>coords_text\<close> in \<open>export_to_word\<close> (lines 177 to 183): there is no \<open>try\<close>.\<close>

definition coords_text_word :: "elem \<Rightarrow> error + string" where
  "coords_text_word clash =
     (case find_desc ''pos3f'' clash of
        None \<Rightarrow> Inr []
      | Some pos \<Rightarrow>
          (case axis_values pos of
             Inl err \<Rightarrow> Inl err
           | Inr (x_val, y_val, z_val) \<Rightarrow>
               Inr (format_3f x_val @ ''m, '' @ format_3f y_val @ ''m, ''
                    @ format_3f z_val @ ''m'')))"

text \<open>
  The coordinates of the sheet \<open>Clash_Points\<close> (lines 283 to 289), again without a
  \<open>try\<close>; the cells get \<open>round(v, 3)\<close>.
\<close>

definition point_coords :: "elem \<Rightarrow> error + (pyfloat \<times> pyfloat \<times> pyfloat) option" where
  "point_coords clash =
     (case find_desc ''pos3f'' clash of
        None \<Rightarrow> Inr None
      | Some pos \<Rightarrow>
          (case axis_values pos of
             Inl err \<Rightarrow> Inl err
           | Inr (x_val, y_val, z_val) \<Rightarrow> Inr (Some (round3 x_val, round3 y_val, round3 z_val))))"

section \<open>Group attribution\<close>

text \<open>
  Lines 160 to 168 of \<open>export_to_excel\<close>, the same as lines 164 to 172 of
  \<open>export_to_word\<close>. The inner loop leaves \<open>clash_group\<close> as it is or sets it at the first
  match; the outer loop goes on to the next \<open>clashtest\<close> as long as \<open>clash_group\<close> is the
  text \<open>Unknown Group\<close>.
\<close>

definition guid_matches :: "string option \<Rightarrow> elem \<Rightarrow> bool" where
  "guid_matches clash_guid cr =
     ((case clash_guid of None \<Rightarrow> False | Some g \<Rightarrow> g \<noteq> []) \<and> get cr ''guid'' = clash_guid)"

fun scan_results :: "string option \<Rightarrow> elem \<Rightarrow> elem list \<Rightarrow> string \<Rightarrow> string" where
  "scan_results clash_guid test [] clash_group = clash_group"
| "scan_results clash_guid test (cr # crs) clash_group =
     (if guid_matches clash_guid cr then get_or test ''name'' ''Unknown Group''
      else scan_results clash_guid test crs clash_group)"

fun scan_tests :: "string option \<Rightarrow> elem list \<Rightarrow> string \<Rightarrow> string" where
  "scan_tests clash_guid [] clash_group = clash_group"
| "scan_tests clash_guid (test # tests) clash_group =
     (let clash_group' = scan_results clash_guid test (findall ''clashresult'' test) clash_group
      in if clash_group' \<noteq> ''Unknown Group'' then clash_group'
         else scan_tests clash_guid tests clash_group')"

definition clash_group_of :: "elem \<Rightarrow> elem \<Rightarrow> string" where
  "clash_group_of root clash =
     scan_tests (get clash ''guid'') (findall ''clashtest'' root) ''Unknown Group''"

text \<open>
  Lines 277 to 281, for the sheet \<open>Clash_Points\<close>: the first \<open>clashtest\<close> that has the
  clash itself among its results. Elements come with their positions, so that
  \<open>clash in test.findall(...)\<close> is membership of that very element.
\<close>

fun points_group :: "nat list \<times> elem \<Rightarrow> (nat list \<times> elem) list \<Rightarrow> string" where
  "points_group clash [] = ''Unknown Group''"
| "points_group clash (test # tests) =
     (if clash \<in> set (findall_at ''clashresult'' test)
      then get_or (snd test) ''name'' ''Unknown Group''
      else points_group clash tests)"

section \<open>The rows of the reports\<close>

text \<open>
  What the first loop of \<open>export_to_excel\<close> (lines 158 to 238) writes for one clash: the
  values of the eight columns. Column 6 holds the resized picture, or a text: the path
  of the image when it cannot be opened or placed, the raw reference when no file is
  found. Cell styles are left out.
\<close>

datatype image_cell = Picture path | Cell_text string

record report_row =
  rfi_no :: nat
  clash_details :: string
  item1_text :: string
  item2_text :: string
  item2_name :: string
  clash_image :: image_cell
  user_images :: string
  comments :: string

definition item_text_at :: "elem list \<Rightarrow> nat \<Rightarrow> string" where
  "item_text_at objs k = (if k < length objs then get_item_details (Some (objs ! k)) else [])"

definition href_of :: "elem \<Rightarrow> string" where
  "href_of clash = (case get clash ''href'' of None \<Rightarrow> [] | Some h \<Rightarrow> h)"

text \<open>
  The layout constants the image is fitted to: \<open>COL_WIDTHS[6]\<close>, \<open>DATA_ROW_HEIGHT\<close> and
  \<open>IMAGE_PADDING_PX\<close>, with \<open>col_width_to_pixels\<close> and \<open>row_height_to_pixels\<close>.
\<close>

definition col_width_to_pixels :: "nat \<Rightarrow> nat" where
  "col_width_to_pixels col_width = col_width * 7 + 5"

definition row_height_to_pixels :: "nat \<Rightarrow> nat" where
  "row_height_to_pixels row_height_pts = row_height_pts * 96 div 72"

definition IMAGE_COL_WIDTH :: nat where
  "IMAGE_COL_WIDTH = 45"

definition DATA_ROW_HEIGHT :: nat where
  "DATA_ROW_HEIGHT = 200"

definition IMAGE_PADDING_PX :: nat where
  "IMAGE_PADDING_PX = 8"

text \<open>Lines 205 to 223: the image of the clash. The call of the resizing can raise.\<close>

definition excel_image_cell :: "world \<Rightarrow> path \<Rightarrow> elem \<Rightarrow> error + image_cell" where
  "excel_image_cell w xml_path clash =
     (case fst (find_image_file w (href_of clash) xml_path) of
        None \<Rightarrow> Inr (Cell_text (href_of clash))
      | Some found \<Rightarrow>
          (case resize_image_for_cell w found (col_width_to_pixels IMAGE_COL_WIDTH)
                  (row_height_to_pixels DATA_ROW_HEIGHT) IMAGE_PADDING_PX of
             Inl err \<Rightarrow> Inl err
           | Inr None \<Rightarrow> Inr (Cell_text (str_path found))
           | Inr (Some tmp_img) \<Rightarrow>
               Inr (if xl_image w tmp_img then Picture tmp_img else Cell_text (str_path found))))"

definition excel_row :: "world \<Rightarrow> path \<Rightarrow> elem \<Rightarrow> nat \<Rightarrow> elem \<Rightarrow> error + report_row" where
  "excel_row w xml_path root i clash =
     (let clash_group = clash_group_of root clash;
          clash_name = get_or clash ''name'' (''Clash'' @ str_nat i);
          distance = get_or clash ''distance'' ''N/A'';
          coords_text = coords_text_excel clash;
          objs = findall ''clashobject'' clash;
          item1 = item_text_at objs 0;
          item2 = item_text_at objs 1;
          item2_short = get_item_name_short item2;
          between_line = ''Between: '' @ get_item_name_short item1 @ '' and '' @ item2_short
                         @ [CHR 0x0A]
      in case excel_image_cell w xml_path clash of
           Inl err \<Rightarrow> Inl err
         | Inr cell \<Rightarrow>
             Inr \<lparr>rfi_no = i,
                  clash_details = ''Clash Group: '' @ clash_group @ [CHR 0x0A]
                                  @ between_line @ [CHR 0x0A]
                                  @ clash_name @ [CHR 0x0A]
                                  @ ''Distance: '' @ distance @ ''m'' @ [CHR 0x0A]
                                  @ ''Clash Point:'' @ [CHR 0x0A] @ coords_text,
                  item1_text = item1,
                  item2_text = item2,
                  item2_name = item2_short,
                  clash_image = cell,
                  user_images = ''(user images)'',
                  comments = []\<rparr>)"

text \<open>
  \<open>for i, clash in enumerate(clashes, start=1)\<close>: one row for each clash, as long as
  nothing raises.
\<close>

fun excel_rows_from :: "world \<Rightarrow> path \<Rightarrow> elem \<Rightarrow> nat \<Rightarrow> elem list \<Rightarrow> error + report_row list" where
  "excel_rows_from w xml_path root i [] = Inr []"
| "excel_rows_from w xml_path root i (clash # clashes) =
     (case excel_row w xml_path root i clash of
        Inl err \<Rightarrow> Inl err
      | Inr row \<Rightarrow>
          (case excel_rows_from w xml_path root (Suc i) clashes of
             Inl err \<Rightarrow> Inl err
           | Inr rows \<Rightarrow> Inr (row # rows)))"

definition excel_rows :: "world \<Rightarrow> path \<Rightarrow> elem \<Rightarrow> error + report_row list" where
  "excel_rows w xml_path root = excel_rows_from w xml_path root 1 (findall ''clashresult'' root)"

text \<open>The second loop (lines 276 to 297), which fills the sheet \<open>Clash_Points\<close>.\<close>

record point_row =
  point_id :: nat
  point_group :: string
  point_name :: string
  point_xyz :: "(pyfloat \<times> pyfloat \<times> pyfloat) option"

fun point_rows_from ::
  "(nat list \<times> elem) list \<Rightarrow> nat \<Rightarrow> (nat list \<times> elem) list \<Rightarrow> error + point_row list" where
  "point_rows_from tests i [] = Inr []"
| "point_rows_from tests i (clash # clashes) =
     (case point_coords (snd clash) of
        Inl err \<Rightarrow> Inl err
      | Inr xyz \<Rightarrow>
          (case point_rows_from tests (Suc i) clashes of
             Inl err \<Rightarrow> Inl err
           | Inr rows \<Rightarrow>
               Inr (\<lparr>point_id = i,
                     point_group = points_group clash tests,
                     point_name = get_or (snd clash) ''name'' (''Clash'' @ str_nat i),
                     point_xyz = xyz\<rparr> # rows)))"

definition point_rows :: "elem \<Rightarrow> error + point_row list" where
  "point_rows root =
     point_rows_from (findall_at ''clashtest'' ([], root)) 1 (findall_at ''clashresult'' ([], root))"

text \<open>
  The rows of \<open>export_to_word\<close> (lines 159 to 208). The conversion of the coordinates
  can raise, and so can the resizing and the placing of the picture; each ends the
  loop.
\<close>

record word_row =
  row_no :: string
  word_details :: string
  word_item1 :: string
  word_item2 :: string
  word_image :: image_cell

definition word_image_cell :: "world \<Rightarrow> path \<Rightarrow> elem \<Rightarrow> error + image_cell" where
  "word_image_cell w xml_path clash =
     (case fst (find_image_file w (href_of clash) xml_path) of
        None \<Rightarrow> Inr (Cell_text (href_of clash))
      | Some found \<Rightarrow>
          (case resize_image_for_cell_word w found of
             Inl err \<Rightarrow> Inl err
           | Inr None \<Rightarrow> Inr (Cell_text (str_path found))
           | Inr (Some tmp_img) \<Rightarrow>
               if add_picture w tmp_img then Inr (Picture tmp_img) else Inl ImageError))"

definition word_row :: "world \<Rightarrow> path \<Rightarrow> elem \<Rightarrow> nat \<Rightarrow> elem \<Rightarrow> error + word_row" where
  "word_row w xml_path root i clash =
     (let clash_group = clash_group_of root clash;
          clash_name = get_or clash ''name'' (''Clash'' @ str_nat i);
          distance = get_or clash ''distance'' ''N/A''
      in case coords_text_word clash of
           Inl err \<Rightarrow> Inl err
         | Inr coords_text \<Rightarrow>
             (let objs = findall ''clashobject'' clash;
                  item1 = item_text_at objs 0;
                  item2 = item_text_at objs 1;
                  between_line = ''Between: '' @ get_item_name_short item1 @ '' and ''
                                 @ get_item_name_short item2 @ [CHR 0x0A]
              in case word_image_cell w xml_path clash of
                   Inl err \<Rightarrow> Inl err
                 | Inr cell \<Rightarrow>
                     Inr \<lparr>row_no = str_nat i,
                          word_details = ''Clash Group: '' @ clash_group @ [CHR 0x0A]
                                         @ between_line
                                         @ clash_name @ [CHR 0x0A]
                                         @ ''Distance: '' @ distance @ ''m'' @ [CHR 0x0A]
                                         @ ''Clash Point: '' @ coords_text,
                          word_item1 = item1,
                          word_item2 = item2,
                          word_image = cell\<rparr>))"

fun word_rows_from :: "world \<Rightarrow> path \<Rightarrow> elem \<Rightarrow> nat \<Rightarrow> elem list \<Rightarrow> error + word_row list" where
  "word_rows_from w xml_path root i [] = Inr []"
| "word_rows_from w xml_path root i (clash # clashes) =
     (case word_row w xml_path root i clash of
        Inl err \<Rightarrow> Inl err
      | Inr row \<Rightarrow>
          (case word_rows_from w xml_path root (Suc i) clashes of
             Inl err \<Rightarrow> Inl err
           | Inr rows \<Rightarrow> Inr (row # rows)))"

section \<open>The export runs\<close>

text \<open>
  A run raises (\<open>Inl\<close>), or it returns: either after printing that the XML file was not
  found, with nothing written, or after saving the document it has built. The
  document is saved at the end of the run, so a run that raises saves nothing. The
  writing of the output file itself is taken to succeed.
\<close>

datatype 'a outcome = Not_found string | Saved 'a

record workbook =
  clash_report :: "report_row list"
  clash_points :: "point_row list"

definition export_to_excel :: "world \<Rightarrow> string \<Rightarrow> error + workbook outcome" where
  "export_to_excel w xml_file =
     (let xml_path = Path xml_file
      in if \<not> path_exists w xml_path then Inr (Not_found (''XML file not found: '' @ xml_file))
         else (case parse_xml w xml_path of
                 None \<Rightarrow> Inl ParseError
               | Some root \<Rightarrow>
                   (case excel_rows w xml_path root of
                      Inl err \<Rightarrow> Inl err
                    | Inr report \<Rightarrow>
                        (case point_rows root of
                           Inl err \<Rightarrow> Inl err
                         | Inr points \<Rightarrow>
                             Inr (Saved \<lparr>clash_report = report, clash_points = points\<rparr>)))))"

definition export_to_word :: "world \<Rightarrow> string \<Rightarrow> error + word_row list outcome" where
  "export_to_word w xml_file =
     (let xml_path = Path xml_file
      in if \<not> path_exists w xml_path then Inr (Not_found (''XML file not found: '' @ xml_file))
         else (case parse_xml w xml_path of
                 None \<Rightarrow> Inl ParseError
               | Some root \<Rightarrow>
                   (case word_rows_from w xml_path root 1 (findall ''clashresult'' root) of
                      Inl err \<Rightarrow> Inl err
                    | Inr rows \<Rightarrow> Inr (Saved rows))))"

text \<open>
  The number of elements with tag \<open>t\<close> in a tree, the root included, counted along the
  structure of the document.
\<close>

fun count_tag :: "string \<Rightarrow> elem \<Rightarrow> nat"
  and count_tag_children :: "string \<Rightarrow> elem list \<Rightarrow> nat" where
  "count_tag t (Element u a x cs) = (if u = t then 1 else 0) + count_tag_children t cs"
| "count_tag_children t [] = 0"
| "count_tag_children t (c # cs) = count_tag t c + count_tag_children t cs"

section \<open>The item data of the first export\<close>

text \<open>
  The loop of \<open>get_item_details\<close> in \<open>export_xml_to_excel.py\<close> (lines 120 to 140), which
  reads the \<open>smarttag\<close> children of the object and skips a tag whose name or value is
  empty.
\<close>

definition data_key :: "string \<Rightarrow> string option" where
  "data_key name_text =
     (if name_text = ''Item Name'' then Some ''itemName''
      else if name_text = ''Civil3D General:Network name'' then Some ''network''
      else if name_text = ''Civil3D General:Part Size Name'' then Some ''partSize''
      else if name_text = ''Item Type'' then Some ''itemType''
      else if name_text = ''Civil3D General:Inner Diameter or Width'' then Some ''inner''
      else if name_text = ''Civil3D General:Outer Diameter or Width'' then Some ''outer''
      else None)"

fun data_loop :: "(string \<rightharpoonup> string) \<Rightarrow> elem list \<Rightarrow> (string \<rightharpoonup> string)" where
  "data_loop data [] = data"
| "data_loop data (st # sts) =
     (let name_text = strip (findtext st ''name'' []);
          val = strip (findtext st ''value'' [])
      in if name_text = [] \<or> val = [] then data_loop data sts
         else data_loop (case data_key name_text of None \<Rightarrow> data | Some k \<Rightarrow> data(k \<mapsto> val)) sts)"

definition item_data :: "elem \<Rightarrow> (string \<rightharpoonup> string)" where
  "item_data clashObject =
     data_loop Map.empty (filter (\<lambda>c. tag c = ''smarttag'') (children clashObject))"

section \<open>Example documents\<close>

definition smarttag :: "string \<Rightarrow> string option \<Rightarrow> elem" where
  "smarttag n v =
     Element ''smarttag'' [] None [Element ''name'' [] (Some n) [], Element ''value'' [] v []]"

text \<open>An object with two tags named \<open>Item Name\<close>, of values \<open>A\<close> and \<open>B\<close>.\<close>

definition object_a_then_b :: elem where
  "object_a_then_b =
     Element ''clashobject'' [] None
       [smarttag ''Item Name'' (Some ''A''), smarttag ''Item Name'' (Some ''B'')]"

text \<open>The same with an empty second value, as in \<open><value></value>\<close>.\<close>

definition object_a_then_empty :: elem where
  "object_a_then_empty =
     Element ''clashobject'' [] None
       [smarttag ''Item Name'' (Some ''A''), smarttag ''Item Name'' None]"

text \<open>The document \<open><a><b x="1">text</b></a>\<close>.\<close>

definition discovery_example :: elem where
  "discovery_example = Element ''a'' [] None [Element ''b'' [(''x'', ''1'')] (Some ''text'') []]"


text \<open>
  A clash with the position \<open><pos3f x="1" y="2.5" z="-3.25"/>\<close>, one whose position
  has no \<open>x\<close>, and one whose \<open>x\<close> is \<open>0\<close>.
\<close>

definition clash_with_pos :: "(string \<times> string) list \<Rightarrow> elem" where
  "clash_with_pos axes =
     Element ''clashresult'' [(''guid'', ''g1'')] None
       [Element ''clashpoint'' [] None [Element ''pos3f'' axes None []]]"

definition position_example_clash :: elem where
  "position_example_clash = clash_with_pos [(''x'', ''1''), (''y'', ''2.5''), (''z'', ''-3.25'')]"

definition missing_x_clash :: elem where
  "missing_x_clash = clash_with_pos [(''y'', ''2.5''), (''z'', ''-3.25'')]"

definition zero_x_clash :: elem where
  "zero_x_clash = clash_with_pos [(''x'', ''0''), (''y'', ''2.5''), (''z'', ''-3.25'')]"

text \<open>A document with one clash, whose \<open>x\<close> is not a number.\<close>

definition bad_coords_doc :: elem where
  "bad_coords_doc =
     Element ''exchange'' [] None
       [Element ''clashtest'' [(''name'', ''T1'')] None
          [clash_with_pos [(''x'', ''abc''), (''y'', ''0''), (''z'', ''0'')]]]"

text \<open>
  Two groups that each hold a result with the guid \<open>g\<close>: the first group has the
  attributes \<open>attrs\<close>, the second is named \<open>B\<close>.
\<close>

definition duplicate_guid_doc :: "(string \<times> string) list \<Rightarrow> elem" where
  "duplicate_guid_doc attrs =
     Element ''exchange'' [] None
       [Element ''clashtest'' attrs None
          [Element ''clashresult'' [(''guid'', ''g''), (''name'', ''first'')] None []],
        Element ''clashtest'' [(''name'', ''B'')] None
          [Element ''clashresult'' [(''guid'', ''g''), (''name'', ''second'')] None []]]"

text \<open>A document with results at three depths.\<close>

definition nested_doc :: elem where
  "nested_doc =
     Element ''exchange'' [] None
       [Element ''clashresult'' [(''guid'', ''a'')] None [],
        Element ''batchtest'' [] None
          [Element ''clashtest'' [(''name'', ''T'')] None
             [Element ''clashresult'' [(''guid'', ''b'')] None [],
              Element ''clashresults'' [] None
                [Element ''clashresult'' [(''guid'', ''c'')] None []]]]]"

text \<open>
  A world in which one file exists, nothing is a symbolic link (\<open>resolve\<close> changes
  nothing) and one XML file can be parsed. The file is an image one pixel wide and
  2000 pixels high; a resize to a width or height of zero raises, any other is saved
  to \<open>/tmp/img.png\<close>, which the spreadsheet and the document accept.
\<close>

definition sample_world :: "path \<Rightarrow> path \<Rightarrow> elem option \<Rightarrow> world" where
  "sample_world file xml_path doc =
     \<lparr>path_exists = (\<lambda>p. p = file \<or> p = xml_path),
      path_resolve = Some,
      parse_xml = (\<lambda>p. if p = xml_path then doc else None),
      image_open = (\<lambda>p. if p = file then Some (1, 2000) else None),
      image_resize_save =
        (\<lambda>p dims sfx. if fst dims = 0 \<or> snd dims = 0 then None
                      else Some (Path_of ''/'' [''tmp'', ''img.png''])),
      xl_image = (\<lambda>p. True),
      add_picture = (\<lambda>p. True)\<rparr>"

text \<open>
  A document with two clashes, the second with a \<open>y\<close> that is not a number, and a
  document with one clash that refers to the image \<open>img.png\<close>.
\<close>

definition second_bad_doc :: elem where
  "second_bad_doc =
     Element ''exchange'' [] None
       [Element ''clashtest'' [(''name'', ''T1'')] None
          [clash_with_pos [(''x'', ''1''), (''y'', ''2.5''), (''z'', ''-3.25'')],
           clash_with_pos [(''x'', ''1''), (''y'', ''abc''), (''z'', ''0'')]]]"

definition image_doc :: elem where
  "image_doc =
     Element ''exchange'' [] None
       [Element ''clashtest'' [(''name'', ''T1'')] None
          [Element ''clashresult'' [(''guid'', ''g1''), (''href'', ''img.png'')] None []]]"

section \<open>Evaluation of documents\<close>

lemmas doc_eval = findall_def findall_at_def find_desc_def findtext_def get_def get_or_def
  strip_def is_space_def

lemma find_pos_example:
  "find_desc ''pos3f'' (clash_with_pos axes) = Some (Element ''pos3f'' axes None [])"
  by (simp add: clash_with_pos_def doc_eval)

lemma replace_eval [simp]:
  "replace old new [] = (if old = [] then new else [])"
  "old \<noteq> [] \<Longrightarrow> replace old new (c # cs) =
     (if startswith (c # cs) old then new @ replace old new (drop (length old) (c # cs))
      else c # replace old new cs)"
  by (simp_all add: replace.simps [of old new "[]"] replace.simps [of old new "c # cs"])

lemma bit_length_simps [simp]:
  "bit_length 0 = 0"
  "bit_length (Suc 0) = Suc 0"
  "bit_length (numeral k) = Suc (bit_length (numeral k div 2))"
  by (simp_all add: bit_length.simps [of 0] bit_length.simps [of "Suc 0"]
      bit_length.simps [of "numeral k"])

lemma str_nat_simps [simp]:
  "str_nat 0 = [digit_char 0]"
  "str_nat (Suc 0) = [digit_char 1]"
  "str_nat (numeral k) =
     (if numeral k < (10::nat) then [digit_char (numeral k)]
      else str_nat (numeral k div 10) @ [digit_char (numeral k mod 10)])"
  by (simp_all add: str_nat.simps [of 0] str_nat.simps [of "Suc 0"] str_nat.simps [of "numeral k"])

lemmas path_eval = Path_def posix_root_def is_absolute_def parent_def name_def joinpath_def
  candidates_def resolved_def

lemmas float_eval = float_of_str_def parse_number_def parse_exponent_def digitpart_def
  is_digit_def digit_val_def nat_of_digits_def decimal_to_float_def to_binary64_def
  floor_log2_def scaled_round_def round_half_even_def float_space_def to_lower_def
  less_eq_char_def Let_def

lemmas format_eval = format_3f_def pad3_def digit_char_def scaled_round_def
  round_half_even_def

section \<open>Numbers read and written\<close>

lemma float_of_str_abc: "float_of_str ''abc'' = None"
  by (simp add: float_eval)

lemma float_of_str_1: "float_of_str ''1'' = Some (Finite False 4503599627370496 (- 52))"
  by (simp add: float_eval)

lemma float_of_str_2_5: "float_of_str ''2.5'' = Some (Finite False 5629499534213120 (- 51))"
  by (simp add: float_eval)

lemma float_of_str_m3_25: "float_of_str ''-3.25'' = Some (Finite True 7318349394477056 (- 51))"
  by (simp add: float_eval)

lemma float_of_str_0: "float_of_str ''0'' = Some float_zero"
  by (simp add: float_eval float_zero_def)

lemma format_1: "format_3f (Finite False 4503599627370496 (- 52)) = ''1.000''"
  by (simp add: format_eval)

lemma format_2_5: "format_3f (Finite False 5629499534213120 (- 51)) = ''2.500''"
  by (simp add: format_eval)

lemma format_m3_25: "format_3f (Finite True 7318349394477056 (- 51)) = ''-3.250''"
  by (simp add: format_eval)

lemma format_zero: "format_3f float_zero = ''0.000''"
  by (simp add: format_eval float_zero_def)

section \<open>The tag dictionary\<close>

text \<open>
  The value the loop leaves under a key: that of the last tag with this name, if the
  name is not empty and there is such a tag.
\<close>

lemma tags_loop_lookup:
  "tags_loop tags sts k =
     (case filter (\<lambda>st. strip (findtext st ''name'' []) = k) sts of
        [] \<Rightarrow> tags k
      | m # ms \<Rightarrow>
          if k \<noteq> [] then Some (strip (findtext (last (m # ms)) ''value'' [])) else tags k)"
  by (induction sts arbitrary: tags) (auto simp: Let_def split: list.splits)

text \<open>
  Claim C5. Tag resolution is last-write-wins on duplicate names: for every clash object
  whose \<open>smarttag\<close> elements of one name, \<open>Item Name\<close> in the claim, carry the values
  \<open>A\<close> and then \<open>B\<close> in document order, the dictionary gives that name the value \<open>B\<close>.
\<close>

theorem tag_last_write_wins:
  assumes "n \<noteq> []"
    and "map (\<lambda>st. strip (findtext st ''value'' []))
           (filter (\<lambda>st. strip (findtext st ''name'' []) = n) (findall ''smarttag'' obj)) = [a, b]"
  shows "item_tags obj n = Some b"
proof -
  from assms(2) obtain s1 s2 where
    f: "filter (\<lambda>st. strip (findtext st ''name'' []) = n) (findall ''smarttag'' obj) = [s1, s2]"
    and b: "strip (findtext s2 ''value'' []) = b"
    by (auto simp: map_eq_Cons_conv)
  show ?thesis
    unfolding item_tags_def tags_loop_lookup f using assms(1) b by simp
qed

theorem tag_last_write_wins_witness:
  "''Item Name'' \<noteq> [] \<and>
   map (\<lambda>st. strip (findtext st ''value'' []))
     (filter (\<lambda>st. strip (findtext st ''name'' []) = ''Item Name'')
        (findall ''smarttag'' object_a_then_b)) = [''A'', ''B''] \<and>
   item_tags object_a_then_b ''Item Name'' = Some ''B''"
proof -
  have h: "map (\<lambda>st. strip (findtext st ''value'' []))
     (filter (\<lambda>st. strip (findtext st ''name'' []) = ''Item Name'')
        (findall ''smarttag'' object_a_then_b)) = [''A'', ''B'']"
    by (simp add: object_a_then_b_def smarttag_def doc_eval)
  from tag_last_write_wins [OF _ h] h show ?thesis by simp
qed

text \<open>
  Claim C4. The dictionary of the tag resolver is said to hold no entry with an empty
  value. In \<open>export_xml_to_excel_v6.py\<close> and \<open>export_xml_to_word_v4.py\<close> a tag with a name
  and an empty value is stored: on an object whose tags are \<open>Item Name\<close> = \<open>A\<close> and then
  \<open>Item Name\<close> with an empty value, the dictionary maps \<open>Item Name\<close> to the empty string
  and the item text is empty, the value \<open>A\<close> being lost.
\<close>

theorem empty_value_is_stored:
  "item_tags object_a_then_empty ''Item Name'' = Some [] \<and>
   get_item_details (Some object_a_then_empty) = []"
  by (simp add: item_tags_def get_item_details_def item_lines_def tag_truthy_def
      tag_or_empty_def object_a_then_empty_def smarttag_def doc_eval)

text \<open>
  What does hold of the dictionary: every entry comes from a tag with that name, and no
  name is empty. In \<open>export_xml_to_excel.py\<close> the loop keeps no empty value.
\<close>

lemma tags_loop_entry:
  "tags_loop tags sts k = Some v \<Longrightarrow>
   tags k = Some v \<or>
   (k \<noteq> [] \<and> (\<exists>st\<in>set sts. k = strip (findtext st ''name'' []) \<and>
                              v = strip (findtext st ''value'' [])))"
proof (induction sts arbitrary: tags)
  case Nil
  then show ?case by simp
next
  case (Cons st sts)
  from Cons.IH [OF Cons.prems [simplified tags_loop.simps Let_def]]
  show ?case by (auto split: if_splits)
qed

lemma item_tags_entry:
  assumes "item_tags obj k = Some v"
  shows "k \<noteq> [] \<and> (\<exists>st\<in>set (findall ''smarttag'' obj).
            k = strip (findtext st ''name'' []) \<and> v = strip (findtext st ''value'' []))"
  using tags_loop_entry [OF assms [unfolded item_tags_def]] by simp

lemma data_loop_values:
  "data_loop data sts k = Some v \<Longrightarrow> data k = Some v \<or> v \<noteq> []"
proof (induction sts arbitrary: data)
  case Nil
  then show ?case by simp
next
  case (Cons st sts)
  let ?n = "strip (findtext st ''name'' [])" and ?v = "strip (findtext st ''value'' [])"
  show ?case
  proof (cases "?n = [] \<or> ?v = []")
    case True
    with Cons.prems have "data_loop data sts k = Some v" by (simp add: Let_def)
    then show ?thesis by (rule Cons.IH)
  next
    case False
    let ?data' = "case data_key ?n of None \<Rightarrow> data | Some k' \<Rightarrow> data(k' \<mapsto> ?v)"
    from False Cons.prems have "data_loop ?data' sts k = Some v" by (simp add: Let_def)
    then have "?data' k = Some v \<or> v \<noteq> []" by (rule Cons.IH)
    with False show ?thesis by (auto split: option.splits if_splits)
  qed
qed

lemma item_data_values: "item_data obj k = Some v \<Longrightarrow> v \<noteq> []"
  using data_loop_values [of Map.empty _ k v] by (auto simp: item_data_def)

section \<open>Field discovery\<close>

lemma fold_insert_image: "fold (\<lambda>k s. insert (f k) s) ks S = S \<union> f ` set ks"
  by (induction ks arbitrary: S) auto

lemma element_paths_append [simp]:
  "element_paths (xs @ ys) = element_paths xs @ element_paths ys"
  by (simp add: element_paths_def)

lemma attribute_paths_append [simp]:
  "attribute_paths (xs @ ys) = attribute_paths xs @ attribute_paths ys"
  by (simp add: attribute_paths_def)

lemma element_paths_Nil [simp]: "element_paths [] = []"
  by (simp add: element_paths_def)

lemma attribute_paths_Nil [simp]: "attribute_paths [] = []"
  by (simp add: attribute_paths_def)

text \<open>What \<open>walk\<close> adds to the two sets.\<close>

lemma walk_sets:
  "walk e path st =
     (fst st \<union> set (element_paths (tag_paths path e)),
      snd st \<union> set (attribute_paths (tag_paths path e)))"
  "walk_children cs path st =
     (fst st \<union> set (element_paths (tag_paths_children path cs)),
      snd st \<union> set (attribute_paths (tag_paths_children path cs)))"
proof (induction e path st and cs path st rule: walk_walk_children.induct)
  case (1 t a x cs path elements attributes)
  show ?case
    by (auto simp: Let_def 1 fold_insert_image element_paths_def attribute_paths_def)
next
  case (2 path st)
  show ?case by simp
next
  case (3 c cs path st)
  have "walk_children (c # cs) path st = walk_children cs path (walk c path st)"
    by simp
  also have "\<dots> =
     (fst (walk c path st) \<union> set (element_paths (tag_paths_children path cs)),
      snd (walk c path st) \<union> set (attribute_paths (tag_paths_children path cs)))"
    by (rule 3)
  finally show ?case
    by (simp add: 3(1) Un_assoc)
qed

lemma scan_fields_sets:
  "scan_fields root =
     (sorted_list_of_set (listed_elements root), sorted_list_of_set (listed_attributes root))"
  by (simp add: scan_fields_def walk_sets listed_elements_def listed_attributes_def)

lemma scan_fields_example: "scan_fields discovery_example = ([''a'', ''a/b''], [''a/b/@x''])"
  by code_simp

text \<open>
  Claim C9. On the document \<open><a><b x="1">text</b></a>\<close> the scan returns the elements
  \<open>a\<close> and \<open>a/b\<close> and the attribute \<open>a/b/@x\<close>. For every document, the element paths
  returned are those of the elements with text or children, the attribute paths are
  the tag path followed by \<open>/@\<close> and the attribute name, and both lists are sorted and
  without repetition.
\<close>

theorem discover_fields_example:
  "discover_fields (sample_world (Path ''img.png'') (Path ''report.xml'') (Some discovery_example))
     (Path ''report.xml'') = Inr ([''a'', ''a/b''], [''a/b/@x'']) \<and>
   set (fst (scan_fields root)) = listed_elements root \<and>
   set (snd (scan_fields root)) = listed_attributes root \<and>
   sorted (fst (scan_fields root)) \<and> distinct (fst (scan_fields root)) \<and>
   sorted (snd (scan_fields root)) \<and> distinct (snd (scan_fields root))"
proof -
  have "discover_fields (sample_world (Path ''img.png'') (Path ''report.xml'')
      (Some discovery_example)) (Path ''report.xml'') = Inr ([''a'', ''a/b''], [''a/b/@x''])"
    by (simp add: discover_fields_def sample_world_def scan_fields_example)
  moreover have "finite (listed_elements root)" "finite (listed_attributes root)"
    by (simp_all add: listed_elements_def listed_attributes_def)
  ultimately show ?thesis
    by (simp add: scan_fields_sets)
qed

section \<open>The image locator\<close>




section \<open>Coordinates\<close>

lemma axis_value_missing:
  "get pos k = None \<or> get pos k = Some [] \<Longrightarrow> axis_value pos k = Inr float_zero"
  by (auto simp: axis_value_def)

lemma axis_value_zero_text:
  "get pos k = Some ''0'' \<Longrightarrow> axis_value pos k = Inr float_zero"
  by (simp add: axis_value_def float_of_str_0)

lemma coords_text_excel_values:
  "find_desc ''pos3f'' clash = Some pos \<Longrightarrow> axis_values pos = Inr (x_val, y_val, z_val) \<Longrightarrow>
   coords_text_excel clash =
     format_3f x_val @ ''m,'' @ [CHR 0x0A] @ format_3f y_val @ ''m,'' @ [CHR 0x0A]
     @ format_3f z_val @ ''m''"
  by (simp add: coords_text_excel_def)

text \<open>
  Claim C8. For a position with the attributes \<open>x="1"\<close>, \<open>y="2.5"\<close> and \<open>z="-3.25"\<close> the
  coordinate text of the Excel export is \<open>1.000m,\<close> newline \<open>2.500m,\<close> newline \<open>-3.250m\<close>.
\<close>

theorem coords_example:
  assumes "find_desc ''pos3f'' clash = Some pos"
    and "get pos ''x'' = Some ''1''" and "get pos ''y'' = Some ''2.5''"
    and "get pos ''z'' = Some ''-3.25''"
  shows "coords_text_excel clash =
           ''1.000m,'' @ [CHR 0x0A] @ ''2.500m,'' @ [CHR 0x0A] @ ''-3.250m''"
proof -
  have "axis_values pos =
      Inr (Finite False 4503599627370496 (- 52), Finite False 5629499534213120 (- 51),
           Finite True 7318349394477056 (- 51))"
    using assms(2-4)
    by (simp add: axis_values_def axis_value_def float_of_str_1 float_of_str_2_5
        float_of_str_m3_25)
  with assms(1) show ?thesis
    by (simp add: coords_text_excel_values format_1 format_2_5 format_m3_25)
qed

theorem coords_example_witness:
  "find_desc ''pos3f'' position_example_clash =
     Some (Element ''pos3f'' [(''x'', ''1''), (''y'', ''2.5''), (''z'', ''-3.25'')] None []) \<and>
   coords_text_excel position_example_clash =
     ''1.000m,'' @ [CHR 0x0A] @ ''2.500m,'' @ [CHR 0x0A] @ ''-3.250m''"
proof -
  have p: "find_desc ''pos3f'' position_example_clash =
     Some (Element ''pos3f'' [(''x'', ''1''), (''y'', ''2.5''), (''z'', ''-3.25'')] None [])"
    by (simp add: position_example_clash_def find_pos_example)
  from coords_example [OF p] p show ?thesis
    by (simp add: get_def)
qed

text \<open>
  In the first loop of the Excel export a conversion that fails leaves the whole text
  empty; in the Word export it ends the call.
\<close>

lemma coords_text_excel_all_or_nothing:
  assumes "find_desc ''pos3f'' clash = Some pos"
    and "axis_value pos ''x'' = Inl e \<or> axis_value pos ''y'' = Inl e
         \<or> axis_value pos ''z'' = Inl e"
  shows "coords_text_excel clash = []"
  using assms by (auto simp: coords_text_excel_def axis_values_def split: sum.splits)

lemma coords_text_word_raises:
  assumes "find_desc ''pos3f'' clash = Some pos"
    and "axis_value pos ''x'' = Inl e \<or> axis_value pos ''y'' = Inl e
         \<or> axis_value pos ''z'' = Inl e"
  shows "\<exists>e'. coords_text_word clash = Inl e'"
  using assms by (auto simp: coords_text_word_def axis_values_def split: sum.splits)

lemma axis_values_cong:
  assumes "axis_value pos' ''x'' = axis_value pos ''x''"
    and "axis_value pos' ''y'' = axis_value pos ''y''"
    and "axis_value pos' ''z'' = axis_value pos ''z''"
  shows "axis_values pos' = axis_values pos"
  unfolding axis_values_def assms ..

lemma axis_value_get_cong: "get pos' j = get pos j \<Longrightarrow> axis_value pos' j = axis_value pos j"
  by (simp add: axis_value_def)

lemma axis_values_Inr:
  "axis_value pos ''x'' = Inr x_val \<Longrightarrow> axis_value pos ''y'' = Inr y_val \<Longrightarrow>
   axis_value pos ''z'' = Inr z_val \<Longrightarrow> axis_values pos = Inr (x_val, y_val, z_val)"
  by (simp add: axis_values_def)

lemma coords_text_word_values:
  "find_desc ''pos3f'' clash = Some pos \<Longrightarrow> axis_values pos = Inr (x_val, y_val, z_val) \<Longrightarrow>
   coords_text_word clash =
     Inr (format_3f x_val @ ''m, '' @ format_3f y_val @ ''m, '' @ format_3f z_val @ ''m'')"
  by (simp add: coords_text_word_def)

lemma coords_same_axis_values:
  assumes "find_desc ''pos3f'' clash = Some pos" and "find_desc ''pos3f'' clash' = Some pos'"
    and "axis_values pos' = axis_values pos"
  shows "coords_text_excel clash' = coords_text_excel clash"
    and "coords_text_word clash' = coords_text_word clash"
    and "point_coords clash' = point_coords clash"
  using assms by (simp_all add: coords_text_excel_def coords_text_word_def point_coords_def)

text \<open>
  Claim C10. When the position of a clash lacks one of the attributes \<open>x\<close>, \<open>y\<close>, \<open>z\<close>,
  or has it empty, the value 0.0 is taken for that axis and written as \<open>0.000m\<close>: the
  coordinate text is not left empty for that reason, and it is the same text as for a
  position that gives the axis as \<open>0\<close>.
\<close>

theorem missing_axis_reads_as_zero:
  assumes "find_desc ''pos3f'' clash = Some pos"
    and "get pos k = None \<or> get pos k = Some []"
  shows "axis_value pos k = Inr float_zero \<and> format_3f float_zero = ''0.000'' \<and>
    (k = ''x'' \<and> axis_value pos ''y'' = Inr y_val \<and> axis_value pos ''z'' = Inr z_val \<longrightarrow>
       coords_text_excel clash =
         ''0.000m,'' @ [CHR 0x0A] @ format_3f y_val @ ''m,'' @ [CHR 0x0A] @ format_3f z_val @ ''m'' \<and>
       coords_text_word clash =
         Inr (''0.000m, '' @ format_3f y_val @ ''m, '' @ format_3f z_val @ ''m'')) \<and>
    (k = ''y'' \<and> axis_value pos ''x'' = Inr x_val \<and> axis_value pos ''z'' = Inr z_val \<longrightarrow>
       coords_text_excel clash =
         format_3f x_val @ ''m,'' @ [CHR 0x0A] @ ''0.000m,'' @ [CHR 0x0A] @ format_3f z_val @ ''m'' \<and>
       coords_text_word clash =
         Inr (format_3f x_val @ ''m, '' @ ''0.000m, '' @ format_3f z_val @ ''m'')) \<and>
    (k = ''z'' \<and> axis_value pos ''x'' = Inr x_val \<and> axis_value pos ''y'' = Inr y_val \<longrightarrow>
       coords_text_excel clash =
         format_3f x_val @ ''m,'' @ [CHR 0x0A] @ format_3f y_val @ ''m,'' @ [CHR 0x0A] @ ''0.000m'' \<and>
       coords_text_word clash =
         Inr (format_3f x_val @ ''m, '' @ format_3f y_val @ ''m, '' @ ''0.000m'')) \<and>
    (find_desc ''pos3f'' clash' = Some pos' \<and> get pos' k = Some ''0'' \<and>
     (\<forall>j. j \<noteq> k \<longrightarrow> get pos' j = get pos j) \<longrightarrow>
       coords_text_excel clash' = coords_text_excel clash \<and>
       coords_text_word clash' = coords_text_word clash \<and>
       point_coords clash' = point_coords clash)"
proof -
  note pos = assms(1)
  have zero: "axis_value pos k = Inr float_zero"
    using assms(2) by (rule axis_value_missing)
  have x: "k = ''x'' \<and> axis_value pos ''y'' = Inr y_val \<and> axis_value pos ''z'' = Inr z_val \<longrightarrow>
       coords_text_excel clash =
         ''0.000m,'' @ [CHR 0x0A] @ format_3f y_val @ ''m,'' @ [CHR 0x0A] @ format_3f z_val @ ''m'' \<and>
       coords_text_word clash =
         Inr (''0.000m, '' @ format_3f y_val @ ''m, '' @ format_3f z_val @ ''m'')"
  proof (intro impI, elim conjE)
    assume "k = ''x''" "axis_value pos ''y'' = Inr y_val" "axis_value pos ''z'' = Inr z_val"
    with zero have "axis_values pos = Inr (float_zero, y_val, z_val)"
      by (simp add: axis_values_Inr)
    then show "coords_text_excel clash =
         ''0.000m,'' @ [CHR 0x0A] @ format_3f y_val @ ''m,'' @ [CHR 0x0A] @ format_3f z_val @ ''m'' \<and>
       coords_text_word clash =
         Inr (''0.000m, '' @ format_3f y_val @ ''m, '' @ format_3f z_val @ ''m'')"
      by (simp add: coords_text_excel_values [OF pos] coords_text_word_values [OF pos] format_zero)
  qed
  have y: "k = ''y'' \<and> axis_value pos ''x'' = Inr x_val \<and> axis_value pos ''z'' = Inr z_val \<longrightarrow>
       coords_text_excel clash =
         format_3f x_val @ ''m,'' @ [CHR 0x0A] @ ''0.000m,'' @ [CHR 0x0A] @ format_3f z_val @ ''m'' \<and>
       coords_text_word clash =
         Inr (format_3f x_val @ ''m, '' @ ''0.000m, '' @ format_3f z_val @ ''m'')"
  proof (intro impI, elim conjE)
    assume "k = ''y''" "axis_value pos ''x'' = Inr x_val" "axis_value pos ''z'' = Inr z_val"
    with zero have "axis_values pos = Inr (x_val, float_zero, z_val)"
      by (simp add: axis_values_Inr)
    then show "coords_text_excel clash =
         format_3f x_val @ ''m,'' @ [CHR 0x0A] @ ''0.000m,'' @ [CHR 0x0A] @ format_3f z_val @ ''m'' \<and>
       coords_text_word clash =
         Inr (format_3f x_val @ ''m, '' @ ''0.000m, '' @ format_3f z_val @ ''m'')"
      by (simp add: coords_text_excel_values [OF pos] coords_text_word_values [OF pos] format_zero)
  qed
  have z: "k = ''z'' \<and> axis_value pos ''x'' = Inr x_val \<and> axis_value pos ''y'' = Inr y_val \<longrightarrow>
       coords_text_excel clash =
         format_3f x_val @ ''m,'' @ [CHR 0x0A] @ format_3f y_val @ ''m,'' @ [CHR 0x0A] @ ''0.000m'' \<and>
       coords_text_word clash =
         Inr (format_3f x_val @ ''m, '' @ format_3f y_val @ ''m, '' @ ''0.000m'')"
  proof (intro impI, elim conjE)
    assume "k = ''z''" "axis_value pos ''x'' = Inr x_val" "axis_value pos ''y'' = Inr y_val"
    with zero have "axis_values pos = Inr (x_val, y_val, float_zero)"
      by (simp add: axis_values_Inr)
    then show "coords_text_excel clash =
         format_3f x_val @ ''m,'' @ [CHR 0x0A] @ format_3f y_val @ ''m,'' @ [CHR 0x0A] @ ''0.000m'' \<and>
       coords_text_word clash =
         Inr (format_3f x_val @ ''m, '' @ format_3f y_val @ ''m, '' @ ''0.000m'')"
      by (simp add: coords_text_excel_values [OF pos] coords_text_word_values [OF pos] format_zero)
  qed
  have same: "find_desc ''pos3f'' clash' = Some pos' \<and> get pos' k = Some ''0'' \<and>
     (\<forall>j. j \<noteq> k \<longrightarrow> get pos' j = get pos j) \<longrightarrow>
       coords_text_excel clash' = coords_text_excel clash \<and>
       coords_text_word clash' = coords_text_word clash \<and>
       point_coords clash' = point_coords clash"
  proof (intro impI, elim conjE)
    assume pos': "find_desc ''pos3f'' clash' = Some pos'"
      and k0: "get pos' k = Some ''0''"
      and others: "\<forall>j. j \<noteq> k \<longrightarrow> get pos' j = get pos j"
    have av: "axis_value pos' j = axis_value pos j" for j
    proof (cases "j = k")
      case True
      with k0 zero show ?thesis by (simp add: axis_value_zero_text)
    next
      case False
      with others have "get pos' j = get pos j" by (rule_tac mp, rule_tac spec)
      then show ?thesis by (rule axis_value_get_cong)
    qed
    have "axis_values pos' = axis_values pos" by (rule axis_values_cong) (rule av)+
    from coords_same_axis_values [OF pos pos' this]
    show "coords_text_excel clash' = coords_text_excel clash \<and>
       coords_text_word clash' = coords_text_word clash \<and>
       point_coords clash' = point_coords clash"
      by (intro conjI)
  qed
  show ?thesis
    by (intro conjI zero format_zero x y z same)
qed

theorem missing_axis_reads_as_zero_witness:
  "find_desc ''pos3f'' missing_x_clash = Some (Element ''pos3f'' [(''y'', ''2.5''), (''z'', ''-3.25'')] None []) \<and>
   get (Element ''pos3f'' [(''y'', ''2.5''), (''z'', ''-3.25'')] None []) ''x'' = None \<and>
   coords_text_excel missing_x_clash = ''0.000m,'' @ [CHR 0x0A] @ ''2.500m,'' @ [CHR 0x0A] @ ''-3.250m'' \<and>
   coords_text_word missing_x_clash = Inr ''0.000m, 2.500m, -3.250m'' \<and>
   coords_text_excel zero_x_clash = coords_text_excel missing_x_clash"
proof -
  let ?pos = "Element ''pos3f'' [(''y'', ''2.5''), (''z'', ''-3.25'')] None []"
  let ?pos' = "Element ''pos3f'' [(''x'', ''0''), (''y'', ''2.5''), (''z'', ''-3.25'')] None []"
  have p: "find_desc ''pos3f'' missing_x_clash = Some ?pos"
    by (simp add: missing_x_clash_def find_pos_example)
  have p': "find_desc ''pos3f'' zero_x_clash = Some ?pos'"
    by (simp add: zero_x_clash_def find_pos_example)
  have k: "get ?pos ''x'' = None \<or> get ?pos ''x'' = Some []"
    by (simp add: get_def)
  have y: "axis_value ?pos ''y'' = Inr (Finite False 5629499534213120 (- 51))"
    by (simp add: axis_value_def get_def float_of_str_2_5)
  have z: "axis_value ?pos ''z'' = Inr (Finite True 7318349394477056 (- 51))"
    by (simp add: axis_value_def get_def float_of_str_m3_25)
  have g: "get ?pos' ''x'' = Some ''0'' \<and> (\<forall>j. j \<noteq> ''x'' \<longrightarrow> get ?pos' j = get ?pos j)"
    by (simp add: get_def)
  from missing_axis_reads_as_zero [OF p k, of "Finite False 5629499534213120 (- 51)"
      "Finite True 7318349394477056 (- 51)" _ zero_x_clash ?pos'] p' y z g
  have "coords_text_excel missing_x_clash =
         ''0.000m,'' @ [CHR 0x0A] @ format_3f (Finite False 5629499534213120 (- 51)) @ ''m,''
         @ [CHR 0x0A] @ format_3f (Finite True 7318349394477056 (- 51)) @ ''m''"
    and "coords_text_word missing_x_clash =
         Inr (''0.000m, '' @ format_3f (Finite False 5629499534213120 (- 51)) @ ''m, ''
              @ format_3f (Finite True 7318349394477056 (- 51)) @ ''m'')"
    and "coords_text_excel zero_x_clash = coords_text_excel missing_x_clash"
    by simp_all
  with p show ?thesis
    by (simp add: format_2_5 format_m3_25 get_def)
qed

section \<open>Group attribution\<close>

lemma scan_results_no_match:
  "\<forall>cr\<in>set crs. \<not> guid_matches g cr \<Longrightarrow> scan_results g test crs cg = cg"
  by (induction crs) auto

lemma scan_results_match:
  "\<exists>cr\<in>set crs. guid_matches g cr \<Longrightarrow>
   scan_results g test crs cg = get_or test ''name'' ''Unknown Group''"
  by (induction crs) auto

text \<open>With a guid that is missing or empty nothing matches.\<close>

lemma scan_tests_no_guid:
  "g = None \<or> g = Some [] \<Longrightarrow> scan_tests g tests ''Unknown Group'' = ''Unknown Group''"
  by (induction tests) (auto simp: Let_def scan_results_no_match guid_matches_def)

lemma clash_group_no_guid:
  "get clash ''guid'' = None \<or> get clash ''guid'' = Some [] \<Longrightarrow>
   clash_group_of root clash = ''Unknown Group''"
  by (simp add: clash_group_of_def scan_tests_no_guid)

text \<open>
  The first group with a matching result gives the name, provided it has a name and
  the name is not the text \<open>Unknown Group\<close>.
\<close>

lemma scan_tests_first_match:
  assumes "\<forall>t\<in>set pre. \<forall>cr\<in>set (findall ''clashresult'' t). \<not> guid_matches g cr"
    and "\<exists>cr\<in>set (findall ''clashresult'' test). guid_matches g cr"
    and "get test ''name'' = Some nm" and "nm \<noteq> ''Unknown Group''"
  shows "scan_tests g (pre @ test # post) ''Unknown Group'' = nm"
  using assms(1)
proof (induction pre)
  case Nil
  from assms(2-4) show ?case
    by (simp add: Let_def scan_results_match get_or_def)
next
  case (Cons t pre)
  then show ?case
    by (simp add: Let_def scan_results_no_match)
qed

text \<open>A matching group without a name, or named \<open>Unknown Group\<close>, is passed over.\<close>

lemma scan_tests_skips_unnamed:
  assumes "get_or test ''name'' ''Unknown Group'' = ''Unknown Group''"
  shows "scan_tests g (test # tests) ''Unknown Group'' = scan_tests g tests ''Unknown Group''"
proof (cases "\<exists>cr\<in>set (findall ''clashresult'' test). guid_matches g cr")
  case True
  then show ?thesis by (simp add: Let_def scan_results_match assms)
next
  case False
  then show ?thesis by (simp add: Let_def scan_results_no_match)
qed

text \<open>
  Claim C2. Group attribution is said to be first-match in document order: when two
  groups each hold a result with the same guid, the name returned is that of the
  earlier group. The loop of lines 160 to 168 tells a match by the group name being
  different from \<open>Unknown Group\<close>, so an earlier group without a \<open>name\<close> attribute, or
  named \<open>Unknown Group\<close>, does not end the search: on a document whose first group has
  no name and whose second group is \<open>B\<close>, both results are attributed to \<open>B\<close>. With the
  first group named \<open>A\<close> both are attributed to \<open>A\<close>. The loop of lines 277 to 281, which
  fills the sheet \<open>Clash_Points\<close> of the same workbook, stops at the first group and gives
  \<open>Unknown Group\<close> for the first result.
\<close>

theorem unnamed_group_is_skipped:
  "map (clash_group_of (duplicate_guid_doc [])) (findall ''clashresult'' (duplicate_guid_doc []))
     = [''B'', ''B''] \<and>
   map (clash_group_of (duplicate_guid_doc [(''name'', ''Unknown Group'')]))
     (findall ''clashresult'' (duplicate_guid_doc [(''name'', ''Unknown Group'')]))
     = [''B'', ''B''] \<and>
   map (clash_group_of (duplicate_guid_doc [(''name'', ''A'')]))
     (findall ''clashresult'' (duplicate_guid_doc [(''name'', ''A'')]))
     = [''A'', ''A''] \<and>
   map_sum id (map point_group) (point_rows (duplicate_guid_doc []))
     = Inr [''Unknown Group'', ''B'']"
  by (simp add: clash_group_of_def guid_matches_def duplicate_guid_doc_def doc_eval Let_def
      point_rows_def point_coords_def)

section \<open>The rows of the report\<close>

lemma excel_row_Inl_iff:
  "excel_row w xml_path root i clash = Inl e \<longleftrightarrow> excel_image_cell w xml_path clash = Inl e"
  by (simp add: excel_row_def Let_def split: sum.splits)

lemma excel_row_rfi_no: "excel_row w xml_path root i clash = Inr row \<Longrightarrow> rfi_no row = i"
  by (auto simp: excel_row_def Let_def split: sum.splits)

lemma excel_row_ok:
  "excel_image_cell w xml_path clash = Inr cell \<Longrightarrow> \<exists>row. excel_row w xml_path root i clash = Inr row"
  by (simp add: excel_row_def Let_def)

text \<open>What a first loop that ends without an exception has made.\<close>

lemma excel_rows_from_Inr:
  "excel_rows_from w xml_path root i clashes = Inr rows \<Longrightarrow>
   length rows = length clashes \<and>
   map rfi_no rows = [i ..< i + length clashes] \<and>
   (\<forall>k < length clashes. excel_row w xml_path root (i + k) (clashes ! k) = Inr (rows ! k))"
proof (induction clashes arbitrary: i rows)
  case Nil
  then show ?case by simp
next
  case (Cons c cs)
  from Cons.prems obtain row rest where
    row: "excel_row w xml_path root i c = Inr row"
    and rest: "excel_rows_from w xml_path root (Suc i) cs = Inr rest"
    and rows: "rows = row # rest"
    by (auto split: sum.splits)
  from Cons.IH [OF rest] have
    len: "length rest = length cs"
    and nums: "map rfi_no rest = [Suc i ..< Suc i + length cs]"
    and nth: "\<forall>k < length cs. excel_row w xml_path root (Suc i + k) (cs ! k) = Inr (rest ! k)"
    by simp_all
  have upt: "[i ..< i + length (c # cs)] = i # [Suc i ..< Suc i + length cs]"
    by (simp add: upt_rec)
  have "excel_row w xml_path root (i + k) ((c # cs) ! k) = Inr (rows ! k)"
    if "k < length (c # cs)" for k
  proof (cases k)
    case 0
    with row rows show ?thesis by simp
  next
    case (Suc j)
    with that nth rows show ?thesis by simp
  qed
  with len nums upt rows excel_row_rfi_no [OF row] show ?case by simp
qed

text \<open>The first loop ends without an exception when no image makes it raise.\<close>

lemma excel_rows_from_ok:
  "\<forall>c \<in> set clashes. \<exists>cell. excel_image_cell w xml_path c = Inr cell \<Longrightarrow>
   \<exists>rows. excel_rows_from w xml_path root i clashes = Inr rows"
proof (induction clashes arbitrary: i)
  case Nil
  then show ?case by simp
next
  case (Cons c cs)
  then obtain cell where "excel_image_cell w xml_path c = Inr cell" by auto
  then obtain row where "excel_row w xml_path root i c = Inr row"
    using excel_row_ok by blast
  moreover from Cons obtain rest where "excel_rows_from w xml_path root (Suc i) cs = Inr rest"
    by auto
  ultimately show ?case by simp
qed

lemma excel_rows_from_raises:
  assumes "clash \<in> set clashes" and "excel_image_cell w xml_path clash = Inl e"
  shows "\<exists>e'. excel_rows_from w xml_path root i clashes = Inl e'"
  using assms(1)
proof (induction clashes arbitrary: i)
  case Nil
  then show ?case by simp
next
  case (Cons c cs)
  show ?case
  proof (cases "excel_row w xml_path root i c")
    case (Inl a)
    then show ?thesis by simp
  next
    case (Inr row)
    with assms(2) have "c \<noteq> clash"
      using excel_row_Inl_iff [of w xml_path root i clash e] by auto
    with Cons.prems have "clash \<in> set cs" by simp
    then obtain e' where "excel_rows_from w xml_path root (Suc i) cs = Inl e'"
      using Cons.IH by blast
    with Inr show ?thesis by simp
  qed
qed

lemma count_iter:
  "length (filter (\<lambda>(q, x). tag x = t) (iter_at p e)) = count_tag t e"
  "length (filter (\<lambda>(q, x). tag x = t) (iter_children p i cs)) = count_tag_children t cs"
  by (induction p e and p i cs rule: iter_at_iter_children.induct) auto

lemma length_findall: "length (findall t e) = count_tag_children t (children e)"
  by (simp add: findall_def findall_at_def count_iter)

lemma count_tag_root:
  "count_tag t e = (if tag e = t then 1 else 0) + count_tag_children t (children e)"
  by (cases e) simp

section \<open>The export runs\<close>

lemma word_row_raises:
  "coords_text_word clash = Inl e \<Longrightarrow> word_row w xml_path root i clash = Inl e"
  by (simp add: word_row_def Let_def)

lemma word_rows_from_raises:
  assumes "clash \<in> set clashes" and "coords_text_word clash = Inl e"
  shows "\<exists>e'. word_rows_from w xml_path root i clashes = Inl e'"
  using assms(1)
proof (induction clashes arbitrary: i)
  case Nil
  then show ?case by simp
next
  case (Cons c cs)
  show ?case
  proof (cases "word_row w xml_path root i c")
    case (Inl a)
    then show ?thesis by simp
  next
    case (Inr row)
    with assms(2) have "c \<noteq> clash" by (auto simp: word_row_raises)
    with Cons.prems have "clash \<in> set cs" by simp
    then obtain e' where "word_rows_from w xml_path root (Suc i) cs = Inl e'"
      using Cons.IH by blast
    with Inr show ?thesis by simp
  qed
qed

lemma point_rows_from_raises:
  assumes "clash \<in> set clashes" and "point_coords (snd clash) = Inl e"
  shows "\<exists>e'. point_rows_from tests i clashes = Inl e'"
  using assms(1)
proof (induction clashes arbitrary: i)
  case Nil
  then show ?case by simp
next
  case (Cons c cs)
  show ?case
  proof (cases "point_coords (snd c)")
    case (Inl a)
    then show ?thesis by simp
  next
    case (Inr xyz)
    with assms(2) have "c \<noteq> clash" by auto
    with Cons.prems have "clash \<in> set cs" by simp
    then obtain e' where "point_rows_from tests (Suc i) cs = Inl e'"
      using Cons.IH by blast
    with Inr show ?thesis by simp
  qed
qed

lemma point_rows_from_ok:
  "\<forall>c \<in> set clashes. \<exists>xyz. point_coords (snd c) = Inr xyz \<Longrightarrow>
   \<exists>rows. point_rows_from tests i clashes = Inr rows"
proof (induction clashes arbitrary: i)
  case Nil
  then show ?case by simp
next
  case (Cons c cs)
  then obtain xyz where "point_coords (snd c) = Inr xyz" by auto
  moreover from Cons obtain rest where "point_rows_from tests (Suc i) cs = Inr rest"
    by auto
  ultimately show ?case by simp
qed

text \<open>The only exception of the conversions is \<open>ValueError\<close>.\<close>

lemma axis_values_error: "axis_values pos = Inl e \<Longrightarrow> e = ValueError"
  by (auto simp: axis_values_def axis_value_def split: sum.splits option.splits if_splits)

lemma point_coords_error: "point_coords clash = Inl e \<Longrightarrow> e = ValueError"
  by (auto simp: point_coords_def split: option.splits sum.splits dest: axis_values_error)

lemma point_rows_from_error: "point_rows_from tests i clashes = Inl e \<Longrightarrow> e = ValueError"
proof (induction clashes arbitrary: i)
  case Nil
  then show ?case by simp
next
  case (Cons c cs)
  then show ?case
    by (auto split: sum.splits dest: point_coords_error)
qed

lemma point_coords_raises:
  assumes "find_desc ''pos3f'' clash = Some pos"
    and "axis_value pos ''x'' = Inl e \<or> axis_value pos ''y'' = Inl e
         \<or> axis_value pos ''z'' = Inl e"
  shows "\<exists>e'. point_coords clash = Inl e'"
  using assms by (auto simp: point_coords_def axis_values_def split: sum.splits)

lemma point_rows_raises:
  assumes "clash \<in> set (findall ''clashresult'' root)" and "point_coords clash = Inl e"
  shows "point_rows root = Inl ValueError"
proof -
  from assms(1) obtain p where "(p, clash) \<in> set (findall_at ''clashresult'' ([], root))"
    by (auto simp: findall_def)
  with assms(2) obtain e' where e': "point_rows root = Inl e'"
    unfolding point_rows_def using point_rows_from_raises [of "(p, clash)"] by fastforce
  then have "e' = ValueError"
    unfolding point_rows_def by (rule point_rows_from_error)
  with e' show ?thesis by simp
qed

lemma point_rows_ok:
  assumes "\<forall>clash \<in> set (findall ''clashresult'' root). \<exists>xyz. point_coords clash = Inr xyz"
  shows "\<exists>rows. point_rows root = Inr rows"
  unfolding point_rows_def
  by (rule point_rows_from_ok) (use assms in \<open>auto simp: findall_def\<close>)

text \<open>
  A document with one coordinate that is not a number makes both exports raise, and
  nothing is saved.
\<close>

lemma export_to_word_raises:
  assumes "path_exists w (Path xml_file)" and "parse_xml w (Path xml_file) = Some root"
    and "clash \<in> set (findall ''clashresult'' root)"
    and "find_desc ''pos3f'' clash = Some pos"
    and "axis_value pos ''x'' = Inl e \<or> axis_value pos ''y'' = Inl e \<or> axis_value pos ''z'' = Inl e"
  shows "\<exists>e'. export_to_word w xml_file = Inl e'"
proof -
  from assms(4,5) obtain e1 where "coords_text_word clash = Inl e1"
    using coords_text_word_raises by blast
  with assms(3) obtain e2 where
    "word_rows_from w (Path xml_file) root 1 (findall ''clashresult'' root) = Inl e2"
    using word_rows_from_raises by blast
  with assms(1,2) show ?thesis
    by (simp add: export_to_word_def)
qed

lemma export_to_excel_raises:
  assumes "path_exists w (Path xml_file)" and "parse_xml w (Path xml_file) = Some root"
    and "clash \<in> set (findall ''clashresult'' root)"
    and "(\<exists>e. excel_image_cell w (Path xml_file) clash = Inl e) \<or> (\<exists>e. point_coords clash = Inl e)"
  shows "\<exists>e'. export_to_excel w xml_file = Inl e'"
proof (cases "excel_rows w (Path xml_file) root")
  case (Inl a)
  with assms(1,2) show ?thesis by (simp add: export_to_excel_def)
next
  case (Inr rows)
  have "\<not> (\<exists>e. excel_image_cell w (Path xml_file) clash = Inl e)"
  proof
    assume "\<exists>e. excel_image_cell w (Path xml_file) clash = Inl e"
    then obtain e where "excel_image_cell w (Path xml_file) clash = Inl e" ..
    with assms(3) obtain e' where
      "excel_rows_from w (Path xml_file) root 1 (findall ''clashresult'' root) = Inl e'"
      using excel_rows_from_raises by blast
    with Inr show False by (simp add: excel_rows_def)
  qed
  with assms(4) obtain e where "point_coords clash = Inl e" by blast
  with assms(3) have "point_rows root = Inl ValueError" by (rule point_rows_raises)
  with assms(1,2) Inr show ?thesis by (simp add: export_to_excel_def)
qed

lemma export_to_excel_saves:
  assumes "path_exists w (Path xml_file)" and "parse_xml w (Path xml_file) = Some root"
    and "\<forall>clash \<in> set (findall ''clashresult'' root).
           (\<exists>cell. excel_image_cell w (Path xml_file) clash = Inr cell) \<and>
           (\<exists>xyz. point_coords clash = Inr xyz)"
  shows "\<exists>wb. export_to_excel w xml_file = Inr (Saved wb)"
proof -
  from assms(3) obtain rows where "excel_rows w (Path xml_file) root = Inr rows"
    unfolding excel_rows_def using excel_rows_from_ok [of "findall ''clashresult'' root"] by blast
  moreover from assms(3) obtain points where "point_rows root = Inr points"
    using point_rows_ok [of root] by blast
  ultimately show ?thesis
    using assms(1,2) by (simp add: export_to_excel_def)
qed

lemma export_to_excel_saved:
  assumes "export_to_excel w xml_file = Inr (Saved wb)"
  shows "\<exists>root. parse_xml w (Path xml_file) = Some root \<and>
           excel_rows w (Path xml_file) root = Inr (clash_report wb)"
  using assms
  by (auto simp: export_to_excel_def Let_def split: if_splits option.splits sum.splits)

text \<open>Evaluation of the example documents.\<close>

lemma no_href_image_cell:
  "get clash ''href'' = None \<Longrightarrow> excel_image_cell w xml_path clash = Inr (Cell_text [])"
  by (simp add: excel_image_cell_def href_of_def find_image_file_def)

lemma no_pos_point_coords:
  "find_desc ''pos3f'' clash = None \<Longrightarrow> point_coords clash = Inr None"
  by (simp add: point_coords_def)

lemma bad_coords_clash:
  "findall ''clashresult'' bad_coords_doc =
     [clash_with_pos [(''x'', ''abc''), (''y'', ''0''), (''z'', ''0'')]]"
  by (simp add: bad_coords_doc_def clash_with_pos_def doc_eval)

lemma bad_coords_axis:
  "axis_values (Element ''pos3f'' [(''x'', ''abc''), (''y'', ''0''), (''z'', ''0'')] None [])
     = Inl ValueError"
  by (simp add: axis_values_def axis_value_def get_def float_of_str_abc)

lemma clash_with_pos_href: "get (clash_with_pos axes) ''href'' = None"
  by (simp add: clash_with_pos_def get_def)

text \<open>
  An image one pixel wide and 2000 high, fitted to 312 by 258 pixels: the ratio is
  \<open>min(312 / 1, 258 / 2000, 1.0)\<close>, and \<open>int(1 * ratio)\<close> is 0.
\<close>

lemma ratio_w: "to_binary64 False 312 1 = Finite False 5488762045857792 (- 44)"
  by (simp add: to_binary64_def floor_log2_def scaled_round_def round_half_even_def Let_def)

lemma ratio_h: "to_binary64 False 258 2000 = Finite False 4647714815446352 (- 55)"
  by (simp add: to_binary64_def floor_log2_def scaled_round_def round_half_even_def Let_def)

lemma ratio_min:
  "float_min3 (Finite False 5488762045857792 (- 44)) (Finite False 4647714815446352 (- 55)) float_one
     = Finite False 4647714815446352 (- 55)"
  by (simp add: float_min3_def float_less_def float_one_def Let_def)

lemma scale_w: "scale_int 1 (Finite False 4647714815446352 (- 55)) = 0"
  by (simp add: scale_int_def to_binary64_def floor_log2_def scaled_round_def round_half_even_def Let_def)

lemma scale_h: "scale_int 2000 (Finite False 4647714815446352 (- 55)) = 258"
  by (simp add: scale_int_def to_binary64_def floor_log2_def scaled_round_def round_half_even_def Let_def)

lemma scaled_size_example: "scaled_size 312 258 1 2000 = (0, 258)"
  by (simp only: scaled_size_def ratio_w ratio_h ratio_min Let_def scale_w scale_h)

lemma target_size:
  "col_width_to_pixels IMAGE_COL_WIDTH - IMAGE_PADDING_PX = 312"
  "row_height_to_pixels DATA_ROW_HEIGHT - IMAGE_PADDING_PX = 258"
  by (simp_all add: col_width_to_pixels_def row_height_to_pixels_def IMAGE_COL_WIDTH_def
      DATA_ROW_HEIGHT_def IMAGE_PADDING_PX_def)

lemma image_doc_clash:
  "findall ''clashresult'' image_doc =
     [Element ''clashresult'' [(''guid'', ''g1''), (''href'', ''img.png'')] None []]"
  by (simp add: image_doc_def doc_eval)

lemma image_found:
  "fst (find_image_file (sample_world (Path ''img.png'') (Path ''report.xml'') doc) ''img.png''
          (Path ''report.xml'')) = Some (Path ''img.png'')"
  by (simp add: find_image_file_def path_eval sample_world_def strip_def is_space_def
      startswith_def Let_def)

lemma image_doc_cell:
  "excel_image_cell (sample_world (Path ''img.png'') (Path ''report.xml'') doc) (Path ''report.xml'')
     (Element ''clashresult'' [(''guid'', ''g1''), (''href'', ''img.png'')] None []) = Inl ImageError"
proof -
  let ?w = "sample_world (Path ''img.png'') (Path ''report.xml'') doc"
  have href: "href_of (Element ''clashresult'' [(''guid'', ''g1''), (''href'', ''img.png'')] None [])
                = ''img.png''"
    by (simp add: href_of_def get_def)
  have op: "image_open ?w (Path ''img.png'') = Some (1, 2000)"
    by (simp add: sample_world_def)
  have sv: "image_resize_save ?w p (0, 258) sfx = None" for p sfx
    by (simp add: sample_world_def)
  have "resize_image_for_cell ?w (Path ''img.png'') (col_width_to_pixels IMAGE_COL_WIDTH)
          (row_height_to_pixels DATA_ROW_HEIGHT) IMAGE_PADDING_PX = Inl ImageError"
    using scaled_size_example
    by (simp add: resize_image_for_cell_def op target_size sv)
  then show ?thesis
    by (simp add: excel_image_cell_def href image_found)
qed

lemma image_doc_run:
  "export_to_excel (sample_world (Path ''img.png'') (Path ''report.xml'') (Some image_doc))
     ''report.xml'' = Inl ImageError"
proof -
  let ?w = "sample_world (Path ''img.png'') (Path ''report.xml'') (Some image_doc)"
  have "excel_rows ?w (Path ''report.xml'') image_doc = Inl ImageError"
    by (simp add: excel_rows_def image_doc_clash excel_row_def image_doc_cell)
  then show ?thesis
    by (simp add: export_to_excel_def sample_world_def)
qed

lemma second_bad_clashes:
  "findall ''clashresult'' second_bad_doc =
     [clash_with_pos [(''x'', ''1''), (''y'', ''2.5''), (''z'', ''-3.25'')],
      clash_with_pos [(''x'', ''1''), (''y'', ''abc''), (''z'', ''0'')]]"
  by (simp add: second_bad_doc_def clash_with_pos_def doc_eval)

lemma second_bad_point:
  "point_coords (clash_with_pos [(''x'', ''1''), (''y'', ''abc''), (''z'', ''0'')]) = Inl ValueError"
  by (simp add: point_coords_def find_pos_example axis_values_def axis_value_def get_def
      float_of_str_1 float_of_str_abc)

lemma second_bad_run:
  "export_to_excel (sample_world (Path ''img.png'') (Path ''report.xml'') (Some second_bad_doc))
     ''report.xml'' = Inl ValueError"
proof -
  let ?w = "sample_world (Path ''img.png'') (Path ''report.xml'') (Some second_bad_doc)"
  have "\<exists>rows. excel_rows ?w (Path ''report.xml'') second_bad_doc = Inr rows"
    unfolding excel_rows_def
    by (rule excel_rows_from_ok)
      (simp add: second_bad_clashes no_href_image_cell clash_with_pos_href)
  then obtain rows where rows: "excel_rows ?w (Path ''report.xml'') second_bad_doc = Inr rows" ..
  have "point_rows second_bad_doc = Inl ValueError"
    by (rule point_rows_raises [of "clash_with_pos [(''x'', ''1''), (''y'', ''abc''), (''z'', ''0'')]"
          _ ValueError])
      (simp_all add: second_bad_clashes second_bad_point)
  with rows show ?thesis
    by (simp add: export_to_excel_def sample_world_def)
qed

lemma nested_clashes:
  "findall ''clashresult'' nested_doc =
     [Element ''clashresult'' [(''guid'', ''a'')] None [],
      Element ''clashresult'' [(''guid'', ''b'')] None [],
      Element ''clashresult'' [(''guid'', ''c'')] None []]"
  by (simp add: nested_doc_def doc_eval)

lemma leaf_point_coords: "point_coords (Element t a x []) = Inr None"
  by (simp add: point_coords_def doc_eval)

lemma count_examples:
  "count_tag ''clashresult'' second_bad_doc = 2"
  "count_tag ''clashresult'' image_doc = 1"
  "count_tag ''clashresult'' nested_doc = 3"
  by (simp_all add: second_bad_doc_def image_doc_def nested_doc_def clash_with_pos_def)

text \<open>
  Claim C1. Every parsed document is said to give one record for each \<open>clashresult\<close>
  element of the tree, numbered 1 to N in document order. \<open>findall\<close> returns the
  \<open>clashresult\<close> elements beneath the root, at any depth, in document order; for a root
  that is not itself a \<open>clashresult\<close> they are all those of the tree. When no clash has
  an image whose resizing raises and no clash has a coordinate that is not a number, the
  run saves a workbook whose report has exactly one row for each of them, the row of
  number k built from the k-th element. When one clash has such an image or such a
  coordinate, the run raises before the workbook is saved and no record is emitted: so
  it is for the document with two results whose second has \<open>y="abc"\<close>, and for the
  document with one result whose image is one pixel wide and 2000 pixels high.
\<close>

theorem report_rows_of_a_run:
  "length (findall ''clashresult'' root) = count_tag_children ''clashresult'' (children root) \<and>
   (tag root \<noteq> ''clashresult'' \<longrightarrow>
      length (findall ''clashresult'' root) = count_tag ''clashresult'' root) \<and>
   (path_exists w (Path xml_file) \<and> parse_xml w (Path xml_file) = Some root \<and>
    (\<forall>clash \<in> set (findall ''clashresult'' root).
       (\<exists>cell. excel_image_cell w (Path xml_file) clash = Inr cell) \<and>
       (\<exists>xyz. point_coords clash = Inr xyz)) \<longrightarrow>
      (\<exists>wb. export_to_excel w xml_file = Inr (Saved wb) \<and>
            length (clash_report wb) = length (findall ''clashresult'' root) \<and>
            map rfi_no (clash_report wb) = [1 ..< Suc (length (findall ''clashresult'' root))] \<and>
            (\<forall>k < length (findall ''clashresult'' root).
               excel_row w (Path xml_file) root (Suc k) (findall ''clashresult'' root ! k)
                 = Inr (clash_report wb ! k)))) \<and>
   (path_exists w (Path xml_file) \<and> parse_xml w (Path xml_file) = Some root \<and>
    (\<exists>clash \<in> set (findall ''clashresult'' root).
       (\<exists>e. excel_image_cell w (Path xml_file) clash = Inl e) \<or>
       (\<exists>e. point_coords clash = Inl e)) \<longrightarrow>
      (\<exists>e. export_to_excel w xml_file = Inl e)) \<and>
   count_tag ''clashresult'' second_bad_doc = 2 \<and>
   export_to_excel (sample_world (Path ''img.png'') (Path ''report.xml'') (Some second_bad_doc))
     ''report.xml'' = Inl ValueError \<and>
   count_tag ''clashresult'' image_doc = 1 \<and>
   export_to_excel (sample_world (Path ''img.png'') (Path ''report.xml'') (Some image_doc))
     ''report.xml'' = Inl ImageError"
proof -
  let ?cs = "findall ''clashresult'' root"
  have a: "length ?cs = count_tag_children ''clashresult'' (children root)"
    by (rule length_findall)
  have b: "tag root \<noteq> ''clashresult'' \<longrightarrow> length ?cs = count_tag ''clashresult'' root"
    by (simp add: length_findall count_tag_root [of "''clashresult''" root])
  have c: "\<exists>wb. export_to_excel w xml_file = Inr (Saved wb) \<and>
            length (clash_report wb) = length ?cs \<and>
            map rfi_no (clash_report wb) = [1 ..< Suc (length ?cs)] \<and>
            (\<forall>k < length ?cs.
               excel_row w (Path xml_file) root (Suc k) (?cs ! k) = Inr (clash_report wb ! k))"
    if ex: "path_exists w (Path xml_file)" and parse: "parse_xml w (Path xml_file) = Some root"
      and ok: "\<forall>clash \<in> set ?cs.
                 (\<exists>cell. excel_image_cell w (Path xml_file) clash = Inr cell) \<and>
                 (\<exists>xyz. point_coords clash = Inr xyz)"
  proof -
    from export_to_excel_saves [OF ex parse ok] obtain wb where
      wb: "export_to_excel w xml_file = Inr (Saved wb)" ..
    from export_to_excel_saved [OF wb] parse
    have "excel_rows_from w (Path xml_file) root 1 ?cs = Inr (clash_report wb)"
      by (auto simp: excel_rows_def)
    from excel_rows_from_Inr [OF this]
    have "length (clash_report wb) = length ?cs"
      and "map rfi_no (clash_report wb) = [1 ..< Suc (length ?cs)]"
      and "\<forall>k < length ?cs.
             excel_row w (Path xml_file) root (Suc k) (?cs ! k) = Inr (clash_report wb ! k)"
      by simp_all
    with wb show ?thesis by blast
  qed
  have d: "\<exists>e. export_to_excel w xml_file = Inl e"
    if "path_exists w (Path xml_file)" and "parse_xml w (Path xml_file) = Some root"
      and "\<exists>clash \<in> set ?cs.
             (\<exists>e. excel_image_cell w (Path xml_file) clash = Inl e) \<or>
             (\<exists>e. point_coords clash = Inl e)"
    using that export_to_excel_raises [of w xml_file root] by blast
  from a b c d count_examples(1) second_bad_run count_examples(2) image_doc_run
  show ?thesis by (intro conjI impI) blast+
qed

theorem report_rows_of_a_run_witness:
  "path_exists (sample_world (Path ''img.png'') (Path ''report.xml'') (Some nested_doc))
     (Path ''report.xml'') \<and>
   parse_xml (sample_world (Path ''img.png'') (Path ''report.xml'') (Some nested_doc))
     (Path ''report.xml'') = Some nested_doc \<and>
   tag nested_doc \<noteq> ''clashresult'' \<and>
   count_tag ''clashresult'' nested_doc = 3 \<and>
   (\<exists>wb. export_to_excel (sample_world (Path ''img.png'') (Path ''report.xml'') (Some nested_doc))
            ''report.xml'' = Inr (Saved wb) \<and>
         length (clash_report wb) = 3 \<and>
         map rfi_no (clash_report wb) = [1, 2, 3] \<and>
         excel_row (sample_world (Path ''img.png'') (Path ''report.xml'') (Some nested_doc))
           (Path ''report.xml'') nested_doc 3 (Element ''clashresult'' [(''guid'', ''c'')] None [])
           = Inr (clash_report wb ! 2)) \<and>
   parse_xml (sample_world (Path ''img.png'') (Path ''report.xml'') (Some second_bad_doc))
     (Path ''report.xml'') = Some second_bad_doc \<and>
   point_coords (clash_with_pos [(''x'', ''1''), (''y'', ''abc''), (''z'', ''0'')]) = Inl ValueError \<and>
   (\<exists>e. export_to_excel (sample_world (Path ''img.png'') (Path ''report.xml'') (Some second_bad_doc))
           ''report.xml'' = Inl e)"
proof -
  let ?w = "sample_world (Path ''img.png'') (Path ''report.xml'') (Some nested_doc)"
  let ?v = "sample_world (Path ''img.png'') (Path ''report.xml'') (Some second_bad_doc)"
  let ?bad = "clash_with_pos [(''x'', ''1''), (''y'', ''abc''), (''z'', ''0'')]"
  have ex: "path_exists ?w (Path ''report.xml'')"
    and parse: "parse_xml ?w (Path ''report.xml'') = Some nested_doc"
    by (simp_all add: sample_world_def)
  have tg: "tag nested_doc \<noteq> ''clashresult''"
    by (simp add: nested_doc_def)
  have ok: "\<forall>clash \<in> set (findall ''clashresult'' nested_doc).
              (\<exists>cell. excel_image_cell ?w (Path ''report.xml'') clash = Inr cell) \<and>
              (\<exists>xyz. point_coords clash = Inr xyz)"
    by (simp add: nested_clashes no_href_image_cell get_def leaf_point_coords)
  note th = report_rows_of_a_run [of nested_doc ?w "''report.xml''"]
  from th tg have n: "length (findall ''clashresult'' nested_doc) = count_tag ''clashresult'' nested_doc"
    by blast
  from th ex parse ok obtain wb where
    wb: "export_to_excel ?w ''report.xml'' = Inr (Saved wb)"
    and len: "length (clash_report wb) = length (findall ''clashresult'' nested_doc)"
    and nums: "map rfi_no (clash_report wb) = [1 ..< Suc (length (findall ''clashresult'' nested_doc))]"
    and rows: "\<forall>k < length (findall ''clashresult'' nested_doc).
                 excel_row ?w (Path ''report.xml'') nested_doc (Suc k)
                   (findall ''clashresult'' nested_doc ! k) = Inr (clash_report wb ! k)"
    by blast
  from n have cnt: "count_tag ''clashresult'' nested_doc = 3"
    by (simp add: nested_clashes)
  from len have len3: "length (clash_report wb) = 3"
    by (simp add: nested_clashes)
  from nums have nums3: "map rfi_no (clash_report wb) = [1, 2, 3]"
    by (simp add: nested_clashes upt_rec)
  from rows [rule_format, of 2] have row3: "excel_row ?w (Path ''report.xml'') nested_doc 3
      (Element ''clashresult'' [(''guid'', ''c'')] None []) = Inr (clash_report wb ! 2)"
    by (simp add: nested_clashes)
  have exv: "path_exists ?v (Path ''report.xml'')"
    and parsev: "parse_xml ?v (Path ''report.xml'') = Some second_bad_doc"
    by (simp_all add: sample_world_def)
  have pc: "point_coords ?bad = Inl ValueError"
    by (rule second_bad_point)
  have mem: "?bad \<in> set (findall ''clashresult'' second_bad_doc)"
    by (simp add: second_bad_clashes)
  from report_rows_of_a_run [of second_bad_doc ?v "''report.xml''"] exv parsev mem pc
  have raises: "\<exists>e. export_to_excel ?v ''report.xml'' = Inl e"
    by blast
  from ex parse tg cnt wb len3 nums3 row3 parsev pc raises show ?thesis
    by (intro conjI exI [of _ wb]) 
qed

text \<open>
  Claim C7. Coordinate extraction is said to be all or nothing without any error: when
  \<open>x\<close>, \<open>y\<close> or \<open>z\<close> is not a number the coordinate text is empty and nothing is
  raised. The first loop of \<open>export_to_excel\<close> does so. \<open>export_to_word\<close> converts without
  a \<open>try\<close> and raises \<open>ValueError\<close>; so does the second loop of \<open>export_to_excel\<close>, before
  the workbook is saved. On the document with the position \<open>x="abc"\<close>, \<open>y="0"\<close>,
  \<open>z="0"\<close>:
\<close>

theorem unparsable_axis_raises:
  "coords_text_excel (clash_with_pos [(''x'', ''abc''), (''y'', ''0''), (''z'', ''0'')]) = [] \<and>
   export_to_word (sample_world (Path ''img.png'') (Path ''report.xml'') (Some bad_coords_doc))
     ''report.xml'' = Inl ValueError \<and>
   export_to_excel (sample_world (Path ''img.png'') (Path ''report.xml'') (Some bad_coords_doc))
     ''report.xml'' = Inl ValueError"
proof -
  let ?clash = "clash_with_pos [(''x'', ''abc''), (''y'', ''0''), (''z'', ''0'')]"
  let ?w = "sample_world (Path ''img.png'') (Path ''report.xml'') (Some bad_coords_doc)"
  have e: "coords_text_excel ?clash = []"
    by (simp add: coords_text_excel_def find_pos_example bad_coords_axis)
  have cw: "coords_text_word ?clash = Inl ValueError"
    by (simp add: coords_text_word_def find_pos_example bad_coords_axis)
  have pc: "point_coords ?clash = Inl ValueError"
    by (simp add: point_coords_def find_pos_example bad_coords_axis)
  have w: "export_to_word ?w ''report.xml'' = Inl ValueError"
    by (simp add: export_to_word_def sample_world_def bad_coords_clash word_row_raises [OF cw])
  have "\<exists>rows. excel_rows ?w (Path ''report.xml'') bad_coords_doc = Inr rows"
    unfolding excel_rows_def
    by (rule excel_rows_from_ok) (simp add: bad_coords_clash no_href_image_cell clash_with_pos_href)
  then obtain rows where rows: "excel_rows ?w (Path ''report.xml'') bad_coords_doc = Inr rows" ..
  have "point_rows bad_coords_doc = Inl ValueError"
    by (rule point_rows_raises [of ?clash _ ValueError]) (simp_all add: bad_coords_clash pc)
  with rows have x: "export_to_excel ?w ''report.xml'' = Inl ValueError"
    by (simp add: export_to_excel_def sample_world_def)
  from e w x show ?thesis by (intro conjI)
qed

text \<open>
  Claim C6. A source file that does not exist and a document that is not well-formed
  are both said to be errors that propagate. For a file that does not exist the
  exports print \<open>XML file not found\<close> and return: no error reaches the caller.
\<close>

theorem missing_file_returns:
  "export_to_excel (sample_world (Path ''img.png'') (Path ''report.xml'') None) ''missing.xml''
     = Inr (Not_found ''XML file not found: missing.xml'')"
  by (simp add: export_to_excel_def sample_world_def Path_def posix_root_def)

text \<open>
  Claim C6, as the code has it. When the source file does not exist, the run prints
  \<open>XML file not found: \<close> and the file name and returns without an error; when the file
  exists and is not well-formed XML, \<open>ParseError\<close> propagates. In both cases nothing is
  saved.
\<close>

theorem missing_or_malformed_source:
  "(\<not> path_exists w (Path xml_file) \<longrightarrow>
      export_to_excel w xml_file = Inr (Not_found (''XML file not found: '' @ xml_file)) \<and>
      export_to_word w xml_file = Inr (Not_found (''XML file not found: '' @ xml_file))) \<and>
   (path_exists w (Path xml_file) \<and> parse_xml w (Path xml_file) = None \<longrightarrow>
      export_to_excel w xml_file = Inl ParseError \<and>
      export_to_word w xml_file = Inl ParseError) \<and>
   (\<not> path_exists w (Path xml_file) \<or> parse_xml w (Path xml_file) = None \<longrightarrow>
      (\<forall>wb. export_to_excel w xml_file \<noteq> Inr (Saved wb)) \<and>
      (\<forall>rows. export_to_word w xml_file \<noteq> Inr (Saved rows)))"
  by (auto simp: export_to_excel_def export_to_word_def Let_def)

theorem missing_or_malformed_source_witness:
  "\<not> path_exists (sample_world (Path ''img.png'') (Path ''report.xml'') None) (Path ''missing.xml'') \<and>
   export_to_word (sample_world (Path ''img.png'') (Path ''report.xml'') None) ''missing.xml''
     = Inr (Not_found ''XML file not found: missing.xml'') \<and>
   path_exists (sample_world (Path ''img.png'') (Path ''report.xml'') None) (Path ''report.xml'') \<and>
   parse_xml (sample_world (Path ''img.png'') (Path ''report.xml'') None) (Path ''report.xml'') = None \<and>
   export_to_excel (sample_world (Path ''img.png'') (Path ''report.xml'') None) ''report.xml''
     = Inl ParseError \<and>
   export_to_word (sample_world (Path ''img.png'') (Path ''report.xml'') None) ''report.xml''
     = Inl ParseError"
proof -
  let ?w = "sample_world (Path ''img.png'') (Path ''report.xml'') None"
  have a: "\<not> path_exists ?w (Path ''missing.xml'')"
    by (simp add: sample_world_def Path_def posix_root_def)
  have b: "path_exists ?w (Path ''report.xml'') \<and> parse_xml ?w (Path ''report.xml'') = None"
    by (simp add: sample_world_def)
  from missing_or_malformed_source [of ?w "''missing.xml''"] a
  have "export_to_word ?w ''missing.xml'' = Inr (Not_found (''XML file not found: '' @ ''missing.xml''))"
    by simp
  moreover from missing_or_malformed_source [of ?w "''report.xml''"] b
  have "export_to_excel ?w ''report.xml'' = Inl ParseError \<and>
        export_to_word ?w ''report.xml'' = Inl ParseError"
    by simp
  ultimately show ?thesis using a b by simp
qed

end
